theory Spec2Isabelle
  imports Complex_Main
begin

section \<open>Values of the host language\<close>

text \<open>
  The tool arguments arrive as parsed JSON and are handled untyped (the TypeScript casts
  \<^verbatim>\<open>args as {...}\<close> are erased at run time), so the model keeps the run-time values:
  the JSON values plus \<^verbatim>\<open>undefined\<close>, which is what reading a missing property gives.
  A number is a rational (the handlers never compute with numbers, they pass them on);
  a string is a list of characters, one per UTF-16 code unit; an object is the list of
  its own properties in insertion order.
\<close>

datatype json =
    JUndefined
  | JNull
  | JBool bool
  | JNum rat
  | JStr string
  | JArr "json list"
  | JObj "(string \<times> json) list"

type_synonym object = "(string \<times> json) list"

type_synonym vector = "rat list"

text \<open>Property read \<^verbatim>\<open>o[k]\<close>: \<^verbatim>\<open>undefined\<close> when the object has no such property.\<close>

definition get_prop :: "object \<Rightarrow> string \<Rightarrow> json" where
  "get_prop ob k = (case map_of ob k of None \<Rightarrow> JUndefined | Some v \<Rightarrow> v)"

text \<open>Property write \<^verbatim>\<open>o[k] = v\<close>: an existing property keeps its place, a new one goes last.\<close>

fun assoc_put :: "'k \<Rightarrow> 'v \<Rightarrow> ('k \<times> 'v) list \<Rightarrow> ('k \<times> 'v) list" where
  "assoc_put k v [] = [(k, v)]"
| "assoc_put k v ((k', v') # kvs) =
     (if k' = k then (k, v) # kvs else (k', v') # assoc_put k v kvs)"

definition set_prop :: "string \<Rightarrow> json \<Rightarrow> object \<Rightarrow> object" where
  "set_prop k v ob = assoc_put k v ob"

definition own_keys :: "object \<Rightarrow> string list" where
  "own_keys ob = remdups (map fst ob)"

text \<open>Decimal rendering of array indices, lengths and integral numbers.\<close>

definition digit_char :: "nat \<Rightarrow> char" where
  "digit_char d = char_of (48 + d)"

fun show_nat :: "nat \<Rightarrow> string" where
  "show_nat n = (if n < 10 then [digit_char n] else show_nat (n div 10) @ [digit_char (n mod 10)])"

declare show_nat.simps [simp del]

fun frac_digits :: "nat \<Rightarrow> rat \<Rightarrow> string" where
  "frac_digits 0 r = []"
| "frac_digits (Suc fuel) r =
     (if r = 0 then []
      else digit_char (nat \<lfloor>r * 10\<rfloor>) # frac_digits fuel (r * 10 - of_int \<lfloor>r * 10\<rfloor>))"

text \<open>
  \<^verbatim>\<open>String(n)\<close> for a number: exact for integers and for short decimal fractions of
  ordinary magnitude (no exponent notation), which is all a point id or a count can be.
\<close>

definition number_to_string :: "rat \<Rightarrow> string" where
  "number_to_string q =
     (let a = \<bar>q\<bar>; whole = show_nat (nat \<lfloor>a\<rfloor>); rest = frac_digits 17 (a - of_int \<lfloor>a\<rfloor>)
      in (if q < 0 then ''-'' else []) @ whole @ (if rest = [] then [] else ''.'' @ rest))"

fun join_with :: "string \<Rightarrow> string list \<Rightarrow> string" where
  "join_with sep [] = []"
| "join_with sep [s] = s"
| "join_with sep (s # t # ss) = s @ sep @ join_with sep (t # ss)"

text \<open>The conversion a template literal \<^verbatim>\<open>`${v}`\<close> applies to \<^verbatim>\<open>v\<close>.\<close>

fun to_string :: "json \<Rightarrow> string" where
  "to_string JUndefined = ''undefined''"
| "to_string JNull = ''null''"
| "to_string (JBool b) = (if b then ''true'' else ''false'')"
| "to_string (JNum q) = number_to_string q"
| "to_string (JStr s) = s"
| "to_string (JArr xs) =
     join_with '','' (map (\<lambda>x. if x = JUndefined \<or> x = JNull then [] else to_string x) xs)"
| "to_string (JObj ob) = ''[object Object]''"

text \<open>The test \<^verbatim>\<open>!v\<close> is true exactly on the falsy values.\<close>

fun truthy :: "json \<Rightarrow> bool" where
  "truthy JUndefined = False"
| "truthy JNull = False"
| "truthy (JBool b) = b"
| "truthy (JNum q) = (q \<noteq> 0)"
| "truthy (JStr s) = (s \<noteq> [])"
| "truthy (JArr xs) = True"
| "truthy (JObj ob) = True"

text \<open>
  The enumerable own properties that an object spread \<^verbatim>\<open>{...v}\<close> copies: those of an
  object, the indexed elements of an array, the indexed characters of a string, and
  nothing for \<^verbatim>\<open>undefined\<close>, \<^verbatim>\<open>null\<close>, booleans and numbers.
\<close>

fun own_props :: "json \<Rightarrow> object" where
  "own_props (JObj ob) = ob"
| "own_props (JArr xs) = zip (map show_nat [0..<length xs]) xs"
| "own_props (JStr s) = zip (map show_nat [0..<length s]) (map (\<lambda>c. JStr [c]) s)"
| "own_props v = []"

text \<open>\<^verbatim>\<open>{...target, ...src}\<close>: each own key of \<^verbatim>\<open>src\<close> is read and written to the target.\<close>

definition spread :: "json \<Rightarrow> object \<Rightarrow> object" where
  "spread src target =
     fold (\<lambda>k. set_prop k (get_prop (own_props src) k)) (own_keys (own_props src)) target"

text \<open>
  \<^verbatim>\<open>v?.k\<close> for the payload of a point: \<^verbatim>\<open>undefined\<close> when \<^verbatim>\<open>v\<close> is \<^verbatim>\<open>undefined\<close> or
  \<^verbatim>\<open>null\<close>, the property otherwise (a primitive or an array has no property of the
  names read here).
\<close>

fun opt_member :: "json \<Rightarrow> string \<Rightarrow> json" where
  "opt_member (JObj ob) k = get_prop ob k"
| "opt_member v k = JUndefined"

text \<open>A parameter or destructuring default applies to \<^verbatim>\<open>undefined\<close> only, not to \<^verbatim>\<open>null\<close>.\<close>

definition default_to :: "json \<Rightarrow> json \<Rightarrow> json" where
  "default_to d v = (if v = JUndefined then d else v)"

text \<open>\<^verbatim>\<open>s.substring(0, n)\<close>.\<close>

definition substring0 :: "nat \<Rightarrow> string \<Rightarrow> string" where
  "substring0 n s = take n s"

section \<open>The two external services\<close>

text \<open>
  An exception is either an \<^verbatim>\<open>Error\<close> object with its message or some other thrown
  value, kept as the string \<^verbatim>\<open>String(value)\<close> gives for it.
\<close>

datatype exn = Error string | Thrown string

text \<open>Every request the program sends to the embedding provider or to the vector store.\<close>

datatype call =
    EmbeddingsCreate string json int
  | GetCollections
  | CreateCollection string int string
  | Upsert string "(json \<times> vector \<times> json) list"
  | Search string vector json json json
  | DeletePoints string "json list"
  | DeleteFilter string json
  | Retrieve string "json list"
  | Scroll string json json
  | GetCollection string

record point =
  pt_id :: json
  pt_score :: json
  pt_payload :: json

record collection =
  vec_size :: int
  distance :: string
  points :: "(json \<times> vector \<times> json) list"

text \<open>
  Modelled from the spec: the embedding provider and the vector database are external
  services reached through client libraries (spec sections 4.1, 4.2 and 6); only their
  interface is modelled. \<open>calls\<close> logs the requests sent, oldest first.
  \<open>faults\<close> scripts the transport: each request consumes one entry, and \<open>Some e\<close>
  makes that request throw \<open>e\<close> (network, authentication, quota, a rejected input);
  an exhausted script means no failure. \<open>embeddings\<close> is the list of embeddings the
  provider answers with for an input. The store keeps named collections of points
  keyed by id with insert-or-replace, exact retrieval by id, deletion by id that
  ignores absent ids, and deletion by filter where the empty filter selects every
  point. Ranking, paging, filter matching and the collection metrics are the store's
  own business and stay opaque functions.
\<close>

record world =
  calls :: "call list"
  faults :: "exn option list"
  embeddings :: "json \<Rightarrow> vector list"
  collections :: "(string \<times> collection) list"
  search_engine :: "collection \<Rightarrow> vector \<Rightarrow> json \<Rightarrow> json \<Rightarrow> json \<Rightarrow> point list"
  scroll_engine :: "collection \<Rightarrow> json \<Rightarrow> json \<Rightarrow> point list"
  filter_engine :: "json \<Rightarrow> json \<Rightarrow> bool"
  info_engine :: "collection \<Rightarrow> object"

type_synonym 'a outcome = "(exn + 'a) \<times> world"

text \<open>\<^verbatim>\<open>await\<close>: a rejected promise throws at the call site, a fulfilled one continues.\<close>

definition await :: "'a outcome \<Rightarrow> ('a \<Rightarrow> world \<Rightarrow> 'b outcome) \<Rightarrow> 'b outcome" where
  "await r k = (case r of (Inl e, w) \<Rightarrow> (Inl e, w) | (Inr x, w) \<Rightarrow> k x w)"

definition send :: "call \<Rightarrow> world \<Rightarrow> exn option \<times> world" where
  "send c w =
     (case faults w of
        [] \<Rightarrow> (None, w\<lparr>calls := calls w @ [c]\<rparr>)
      | f # fs \<Rightarrow> (f, w\<lparr>calls := calls w @ [c], faults := fs\<rparr>))"

text \<open>The transport lets the next request through.\<close>

definition next_request_passes :: "world \<Rightarrow> bool" where
  "next_request_passes w = (case faults w of [] \<Rightarrow> True | f # _ \<Rightarrow> f = None)"

definition request :: "call \<Rightarrow> world \<Rightarrow> unit outcome" where
  "request c w = (case send c w of (Some e, w') \<Rightarrow> (Inl e, w') | (None, w') \<Rightarrow> (Inr (), w'))"

definition not_found :: "string \<Rightarrow> exn" where
  "not_found name = Error (''Not found: Collection '' @ name @ '' does not exist'')"

definition on_collection ::
  "string \<Rightarrow> (collection \<Rightarrow> world \<Rightarrow> 'a outcome) \<Rightarrow> world \<Rightarrow> 'a outcome" where
  "on_collection name k w =
     (case map_of (collections w) name of
        None \<Rightarrow> (Inl (not_found name), w)
      | Some c \<Rightarrow> k c w)"

definition set_points :: "string \<Rightarrow> collection \<Rightarrow> (json \<times> vector \<times> json) list \<Rightarrow> world \<Rightarrow> world" where
  "set_points name c ps w = w\<lparr>collections := assoc_put name (c\<lparr>points := ps\<rparr>) (collections w)\<rparr>"

text \<open>
  Modelled from the spec: the calls of the two client libraries, one definition per
  operation consumed (create-embeddings of the provider; list and create of the
  collection lifecycle; upsert, search, delete, retrieve, scroll and
  get-collection-info of the store). Each sends its request first; the store
  operations on points then need the named collection to exist.
\<close>

definition client_embeddings_create :: "string \<Rightarrow> json \<Rightarrow> int \<Rightarrow> world \<Rightarrow> vector list outcome" where
  "client_embeddings_create mdl input dims w =
     await (request (EmbeddingsCreate mdl input dims) w) (\<lambda>_ w'. (Inr (embeddings w' input), w'))"

definition client_getCollections :: "world \<Rightarrow> string list outcome" where
  "client_getCollections w =
     await (request GetCollections w) (\<lambda>_ w'. (Inr (map fst (collections w')), w'))"

definition client_createCollection :: "string \<Rightarrow> int \<Rightarrow> string \<Rightarrow> world \<Rightarrow> unit outcome" where
  "client_createCollection name sz metric w =
     await (request (CreateCollection name sz metric) w) (\<lambda>_ w'.
       (case map_of (collections w') name of
          Some c \<Rightarrow> (Inl (Error (''Conflict: Collection '' @ name @ '' already exists'')), w')
        | None \<Rightarrow>
            (Inr (), w'\<lparr>collections := collections w' @
               [(name, \<lparr>vec_size = sz, distance = metric, points = []\<rparr>)]\<rparr>)))"

definition client_upsert :: "string \<Rightarrow> (json \<times> vector \<times> json) list \<Rightarrow> world \<Rightarrow> unit outcome" where
  "client_upsert name pts w =
     await (request (Upsert name pts) w) (\<lambda>_. on_collection name (\<lambda>c w'.
       (Inr (), set_points name c (fold (\<lambda>(i, vp). assoc_put i vp) pts (points c)) w')))"

definition client_search ::
  "string \<Rightarrow> vector \<Rightarrow> json \<Rightarrow> json \<Rightarrow> json \<Rightarrow> world \<Rightarrow> point list outcome" where
  "client_search name v lmt thr flt w =
     await (request (Search name v lmt thr flt) w) (\<lambda>_. on_collection name (\<lambda>c w'.
       (Inr (search_engine w' c v lmt thr flt), w')))"

definition client_delete_points :: "string \<Rightarrow> json list \<Rightarrow> world \<Rightarrow> unit outcome" where
  "client_delete_points name ids w =
     await (request (DeletePoints name ids) w) (\<lambda>_. on_collection name (\<lambda>c w'.
       (Inr (), set_points name c (filter (\<lambda>(i, vp). i \<notin> set ids) (points c)) w')))"

definition client_delete_filter :: "string \<Rightarrow> json \<Rightarrow> world \<Rightarrow> unit outcome" where
  "client_delete_filter name flt w =
     await (request (DeleteFilter name flt) w) (\<lambda>_. on_collection name (\<lambda>c w'.
       (Inr (), set_points name c
          (filter (\<lambda>(i, v, p). \<not> (flt = JObj [] \<or> filter_engine w' flt p)) (points c)) w')))"

definition client_retrieve :: "string \<Rightarrow> json list \<Rightarrow> world \<Rightarrow> point list outcome" where
  "client_retrieve name ids w =
     await (request (Retrieve name ids) w) (\<lambda>_. on_collection name (\<lambda>c w'.
       (Inr (map (\<lambda>(i, v, p). \<lparr>pt_id = i, pt_score = JUndefined, pt_payload = p\<rparr>)
               (filter (\<lambda>(i, vp). i \<in> set ids) (points c))), w')))"

definition client_scroll :: "string \<Rightarrow> json \<Rightarrow> json \<Rightarrow> world \<Rightarrow> point list outcome" where
  "client_scroll name lmt ofs w =
     await (request (Scroll name lmt ofs) w) (\<lambda>_. on_collection name (\<lambda>c w'.
       (Inr (scroll_engine w' c lmt ofs), w')))"

definition client_getCollection :: "string \<Rightarrow> world \<Rightarrow> object outcome" where
  "client_getCollection name w =
     await (request (GetCollection name) w) (\<lambda>_. on_collection name (\<lambda>c w'.
       (Inr (info_engine w' c), w')))"

section \<open>Configuration and the two service classes\<close>

text \<open>
  The constants fixed at startup from the environment. Both service classes wrap each
  client call in \<^verbatim>\<open>try { ... } catch (error) { console.error(...); throw error; }\<close>:
  the exception goes on unchanged, and the diagnostic output is not modelled.
\<close>

record config =
  collectionName :: string
  model :: string
  dimensions :: int

text \<open>\<^verbatim>\<open>EmbeddingService.generateEmbedding\<close>: \<^verbatim>\<open>response.data[0].embedding\<close>.\<close>

definition generateEmbedding :: "config \<Rightarrow> json \<Rightarrow> world \<Rightarrow> vector outcome" where
  "generateEmbedding cfg txt w =
     await (client_embeddings_create (model cfg) txt (dimensions cfg) w) (\<lambda>data w'.
       (case data of
          [] \<Rightarrow> (Inl (Error ''Cannot read properties of undefined (reading embedding)''), w')
        | v # _ \<Rightarrow> (Inr v, w')))"

text \<open>\<^verbatim>\<open>QdrantService.createCollection(vectorSize = 1536)\<close>.\<close>

definition createCollection :: "config \<Rightarrow> int option \<Rightarrow> world \<Rightarrow> unit outcome" where
  "createCollection cfg vectorSize w =
     await (client_getCollections w) (\<lambda>cols w'.
       let exists = list_ex (\<lambda>col. col = collectionName cfg) cols
       in if \<not> exists
          then client_createCollection (collectionName cfg)
                 (case vectorSize of None \<Rightarrow> 1536 | Some n \<Rightarrow> n) ''Cosine'' w'
          else (Inr (), w'))"

definition storeMemory :: "config \<Rightarrow> string \<Rightarrow> vector \<Rightarrow> json \<Rightarrow> world \<Rightarrow> unit outcome" where
  "storeMemory cfg ident vec payload w =
     client_upsert (collectionName cfg) [(JStr ident, vec, payload)] w"

definition searchSimilar ::
  "config \<Rightarrow> vector \<Rightarrow> json \<Rightarrow> json \<Rightarrow> json \<Rightarrow> world \<Rightarrow> point list outcome" where
  "searchSimilar cfg queryVector limit scoreThreshold flt w =
     client_search (collectionName cfg) queryVector
       (default_to (JNum 5) limit) (default_to (JNum (7 / 10)) scoreThreshold) flt w"

definition deleteMemory :: "config \<Rightarrow> json \<Rightarrow> world \<Rightarrow> unit outcome" where
  "deleteMemory cfg ident w = client_delete_points (collectionName cfg) [ident] w"

text \<open>\<^verbatim>\<open>results.length > 0 ? results[0] : null\<close>.\<close>

definition getMemory :: "config \<Rightarrow> json \<Rightarrow> world \<Rightarrow> point option outcome" where
  "getMemory cfg ident w =
     await (client_retrieve (collectionName cfg) [ident] w) (\<lambda>results w'.
       (Inr (case results of [] \<Rightarrow> None | r # _ \<Rightarrow> Some r), w'))"

definition listMemories :: "config \<Rightarrow> json \<Rightarrow> json \<Rightarrow> world \<Rightarrow> point list outcome" where
  "listMemories cfg limit offset w =
     client_scroll (collectionName cfg) (default_to (JNum 10) limit) offset w"

definition clearAllMemories :: "config \<Rightarrow> world \<Rightarrow> unit outcome" where
  "clearAllMemories cfg w = client_delete_filter (collectionName cfg) (JObj []) w"

definition getStats :: "config \<Rightarrow> world \<Rightarrow> object outcome" where
  "getStats cfg w =
     await (client_getCollection (collectionName cfg) w) (\<lambda>info w'.
       (Inr [(''name'', JStr (collectionName cfg)),
             (''points_count'', get_prop info ''points_count''),
             (''indexed_vectors_count'', get_prop info ''indexed_vectors_count''),
             (''segments_count'', get_prop info ''segments_count''),
             (''status'', get_prop info ''status'')], w'))"

section \<open>The tool dispatcher\<close>

record tool =
  tool_name :: string
  required :: "string list"

text \<open>The catalogue: the name and the \<^verbatim>\<open>required\<close> list of each input schema.\<close>

definition tools :: "tool list" where
  "tools =
     [\<lparr>tool_name = ''store_memory'', required = [''content'']\<rparr>,
      \<lparr>tool_name = ''search_memory'', required = [''query'']\<rparr>,
      \<lparr>tool_name = ''delete_memory'', required = [''id'']\<rparr>,
      \<lparr>tool_name = ''get_memory'', required = [''id'']\<rparr>,
      \<lparr>tool_name = ''list_memories'', required = []\<rparr>,
      \<lparr>tool_name = ''get_stats'', required = []\<rparr>,
      \<lparr>tool_name = ''clear_all_memories'', required = [''confirm'']\<rparr>]"

text \<open>
  A call-tool request as the protocol library delivers it: a name and an optional
  argument object (\<open>None\<close> is \<^verbatim>\<open>undefined\<close>).
\<close>

record tool_request =
  name :: string
  arguments :: "object option"

text \<open>
  An invocation misses a required field when the catalogue entry of its tool lists a
  field that the argument object does not have (or there is no argument object).
\<close>

definition missing_required :: "tool_request \<Rightarrow> bool" where
  "missing_required req =
     list_ex (\<lambda>t. tool_name t = name req \<and>
        list_ex (\<lambda>k. case arguments req of None \<Rightarrow> True | Some a \<Rightarrow> map_of a k = None)
          (required t)) tools"

text \<open>
  The result envelope \<^verbatim>\<open>{content: [{type: 'text', text: JSON.stringify(b, null, 2)}]}\<close>,
  kept as the value \<open>b\<close> that is serialised (the serialiser leaves out a property
  whose value is \<^verbatim>\<open>undefined\<close>), and the error tag (false when the property is
  left out).
\<close>

record envelope =
  body :: json
  isError :: bool

definition text_result :: "object \<Rightarrow> envelope" where
  "text_result b = \<lparr>body = JObj b, isError = False\<rparr>"

text \<open>What \<^verbatim>\<open>uuidv4()\<close> and \<^verbatim>\<open>new Date().toISOString()\<close> give during one request.\<close>

record ambient =
  uuidv4 :: string
  now_iso :: string

text \<open>Destructuring \<^verbatim>\<open>const { k, ... } = args\<close> throws a TypeError when \<^verbatim>\<open>args\<close> is undefined.\<close>

definition destructure :: "string \<Rightarrow> object option \<Rightarrow> exn + object" where
  "destructure k args =
     (case args of
        None \<Rightarrow> Inl (Error (''Cannot destructure property '' @ k @ '' of args as it is undefined.''))
      | Some a \<Rightarrow> Inr a)"

definition store_memory :: "config \<Rightarrow> ambient \<Rightarrow> object option \<Rightarrow> world \<Rightarrow> envelope outcome" where
  "store_memory cfg amb args w =
     (case destructure ''content'' args of
        Inl e \<Rightarrow> (Inl e, w)
      | Inr a \<Rightarrow>
          let content = get_prop a ''content'';
              metadata = default_to (JObj []) (get_prop a ''metadata'')
          in await (generateEmbedding cfg content w) (\<lambda>vec w1.
               let ident = uuidv4 amb;
                   payload = spread metadata
                     [(''content'', content), (''timestamp'', JStr (now_iso amb))]
               in await (storeMemory cfg ident vec (JObj payload) w1) (\<lambda>_ w2.
                    (case content of
                       JStr s \<Rightarrow>
                         (Inr (text_result
                            [(''success'', JBool True),
                             (''message'', JStr ''Memory stored successfully''),
                             (''id'', JStr ident),
                             (''content'',
                                JStr (substring0 100 s @ (if length s > 100 then ''...'' else []))),
                             (''metadata'', metadata)]), w2)
                     | JUndefined \<Rightarrow>
                         (Inl (Error ''Cannot read properties of undefined (reading substring)''), w2)
                     | JNull \<Rightarrow>
                         (Inl (Error ''Cannot read properties of null (reading substring)''), w2)
                     | _ \<Rightarrow> (Inl (Error ''content.substring is not a function''), w2)))))"

definition format_result :: "point \<Rightarrow> json" where
  "format_result r =
     JObj [(''id'', pt_id r),
           (''score'', pt_score r),
           (''content'', opt_member (pt_payload r) ''content''),
           (''metadata'', pt_payload r)]"

definition search_memory :: "config \<Rightarrow> object option \<Rightarrow> world \<Rightarrow> envelope outcome" where
  "search_memory cfg args w =
     (case destructure ''query'' args of
        Inl e \<Rightarrow> (Inl e, w)
      | Inr a \<Rightarrow>
          let query = get_prop a ''query'';
              limit = default_to (JNum 5) (get_prop a ''limit'');
              threshold = default_to (JNum (7 / 10)) (get_prop a ''threshold'');
              flt = get_prop a ''filter''
          in await (generateEmbedding cfg query w) (\<lambda>queryVector w1.
               await (searchSimilar cfg queryVector limit threshold flt w1) (\<lambda>results w2.
                 let formattedResults = map format_result results
                 in (Inr (text_result
                       [(''success'', JBool True),
                        (''query'', query),
                        (''results_count'', JNum (of_nat (length formattedResults))),
                        (''results'', JArr formattedResults)]), w2))))"

definition delete_memory :: "config \<Rightarrow> object option \<Rightarrow> world \<Rightarrow> envelope outcome" where
  "delete_memory cfg args w =
     (case destructure ''id'' args of
        Inl e \<Rightarrow> (Inl e, w)
      | Inr a \<Rightarrow>
          let ident = get_prop a ''id''
          in await (deleteMemory cfg ident w) (\<lambda>_ w1.
               (Inr (text_result
                  [(''success'', JBool True),
                   (''message'', JStr (''Memory '' @ to_string ident @ '' deleted successfully''))]),
                w1)))"

definition get_memory :: "config \<Rightarrow> object option \<Rightarrow> world \<Rightarrow> envelope outcome" where
  "get_memory cfg args w =
     (case destructure ''id'' args of
        Inl e \<Rightarrow> (Inl e, w)
      | Inr a \<Rightarrow>
          let ident = get_prop a ''id''
          in await (getMemory cfg ident w) (\<lambda>memory w1.
               (case memory of
                  None \<Rightarrow>
                    (Inr (text_result
                       [(''success'', JBool False),
                        (''message'', JStr (''Memory '' @ to_string ident @ '' not found''))]), w1)
                | Some m \<Rightarrow>
                    (Inr (text_result
                       [(''success'', JBool True),
                        (''memory'', JObj [(''id'', pt_id m), (''payload'', pt_payload m)])]),
                     w1))))"

definition format_memory :: "point \<Rightarrow> json" where
  "format_memory m =
     JObj [(''id'', pt_id m),
           (''content'', opt_member (pt_payload m) ''content''),
           (''timestamp'', opt_member (pt_payload m) ''timestamp''),
           (''metadata'', pt_payload m)]"

definition list_memories :: "config \<Rightarrow> object option \<Rightarrow> world \<Rightarrow> envelope outcome" where
  "list_memories cfg args w =
     (case destructure ''limit'' args of
        Inl e \<Rightarrow> (Inl e, w)
      | Inr a \<Rightarrow>
          let limit = default_to (JNum 10) (get_prop a ''limit'');
              offset = get_prop a ''offset''
          in await (listMemories cfg limit offset w) (\<lambda>memories w1.
               let formattedMemories = map format_memory memories
               in (Inr (text_result
                     [(''success'', JBool True),
                      (''count'', JNum (of_nat (length formattedMemories))),
                      (''memories'', JArr formattedMemories)]), w1)))"

definition get_stats :: "config \<Rightarrow> world \<Rightarrow> envelope outcome" where
  "get_stats cfg w =
     await (getStats cfg w) (\<lambda>stats w1.
       (Inr (text_result
          [(''success'', JBool True),
           (''stats'', JObj stats),
           (''embedding_model'', JStr (model cfg)),
           (''embedding_dimensions'', JNum (of_int (dimensions cfg)))]), w1))"

definition clear_all_memories :: "config \<Rightarrow> object option \<Rightarrow> world \<Rightarrow> envelope outcome" where
  "clear_all_memories cfg args w =
     (case destructure ''confirm'' args of
        Inl e \<Rightarrow> (Inl e, w)
      | Inr a \<Rightarrow>
          let confirm = get_prop a ''confirm''
          in if \<not> truthy confirm
             then (Inr (text_result
                     [(''success'', JBool False),
                      (''message'',
                         JStr ''You must confirm with confirm=true to delete all memories'')]), w)
             else await (clearAllMemories cfg w) (\<lambda>_ w1.
                    (Inr (text_result
                       [(''success'', JBool True),
                        (''message'', JStr ''All memories have been deleted'')]), w1)))"

text \<open>The \<^verbatim>\<open>switch (name)\<close> inside the \<^verbatim>\<open>try\<close> block.\<close>

definition switch_tool :: "config \<Rightarrow> ambient \<Rightarrow> tool_request \<Rightarrow> world \<Rightarrow> envelope outcome" where
  "switch_tool cfg amb req w =
     (if name req = ''store_memory'' then store_memory cfg amb (arguments req) w
      else if name req = ''search_memory'' then search_memory cfg (arguments req) w
      else if name req = ''delete_memory'' then delete_memory cfg (arguments req) w
      else if name req = ''get_memory'' then get_memory cfg (arguments req) w
      else if name req = ''list_memories'' then list_memories cfg (arguments req) w
      else if name req = ''get_stats'' then get_stats cfg w
      else if name req = ''clear_all_memories'' then clear_all_memories cfg (arguments req) w
      else (Inl (Error (''Unknown tool: '' @ name req)), w))"

text \<open>\<^verbatim>\<open>error instanceof Error ? error.message : String(error)\<close>.\<close>

fun error_message :: "exn \<Rightarrow> string" where
  "error_message (Error m) = m"
| "error_message (Thrown s) = s"

definition error_result :: "exn \<Rightarrow> envelope" where
  "error_result e =
     \<lparr>body = JObj [(''success'', JBool False), (''error'', JStr (error_message e))],
      isError = True\<rparr>"

text \<open>The call-tool request handler: the \<^verbatim>\<open>try\<close> block and its \<^verbatim>\<open>catch\<close>.\<close>

definition call_tool :: "config \<Rightarrow> ambient \<Rightarrow> tool_request \<Rightarrow> world \<Rightarrow> envelope \<times> world" where
  "call_tool cfg amb req w =
     (case switch_tool cfg amb req w of
        (Inr r, w') \<Rightarrow> (r, w')
      | (Inl e, w') \<Rightarrow> (error_result e, w'))"

section \<open>A small running instance\<close>

text \<open>
  A two-dimensional configuration with one empty collection, a provider that answers
  every input with the same vector and a store that finds nothing; the concrete runs
  below start from it.
\<close>

definition demo_cfg :: config where
  "demo_cfg = \<lparr>collectionName = ''semantic_memory'', model = ''text-embedding-3-large'',
      dimensions = 2\<rparr>"

definition demo_world :: world where
  "demo_world =
     \<lparr>calls = [], faults = [], embeddings = (\<lambda>_. [[1, 0]]),
      collections = [(''semantic_memory'', \<lparr>vec_size = 2, distance = ''Cosine'', points = []\<rparr>)],
      search_engine = (\<lambda>_ _ _ _ _. []), scroll_engine = (\<lambda>_ _ _. []),
      filter_engine = (\<lambda>_ _. False), info_engine = (\<lambda>_. [])\<rparr>"

definition demo_amb :: ambient where
  "demo_amb = \<lparr>uuidv4 = ''0b1f6f0e-0001'', now_iso = ''2024-01-01T00:00:00.000Z''\<rparr>"

text \<open>
  The same instance after one memory has been stored, with a store whose search and
  scroll answer with every point of the collection.
\<close>

definition demo_payload :: json where
  "demo_payload =
     JObj [(''content'', JStr ''Our API uses JWT''),
           (''timestamp'', JStr ''2024-01-01T00:00:00.000Z''),
           (''tags'', JArr [JStr ''auth''])]"

definition demo_filled :: world where
  "demo_filled =
     demo_world
       \<lparr>collections :=
          [(''semantic_memory'',
            \<lparr>vec_size = 2, distance = ''Cosine'',
             points = [(JStr ''0b1f6f0e-0001'', [1, 0], demo_payload)]\<rparr>)],
        search_engine := (\<lambda>c v lmt thr flt.
          map (\<lambda>(i, x, p). \<lparr>pt_id = i, pt_score = JNum 1, pt_payload = p\<rparr>) (points c)),
        scroll_engine := (\<lambda>c lmt ofs.
          map (\<lambda>(i, x, p). \<lparr>pt_id = i, pt_score = JUndefined, pt_payload = p\<rparr>) (points c))\<rparr>"

text \<open>
  The first instance behind a failing transport: the next request fails, or the next
  one gets through and the one after it fails.
\<close>

definition demo_down :: world where
  "demo_down = demo_world\<lparr>faults := [Some (Error ''503 service unavailable'')]\<rparr>"

definition demo_store_down :: world where
  "demo_store_down = demo_world\<lparr>faults := [None, Some (Error ''503 service unavailable'')]\<rparr>"

section \<open>Association lists and objects\<close>

lemma map_of_assoc_put:
  "map_of (assoc_put k v kvs) k' = (if k' = k then Some v else map_of kvs k')"
  by (induction kvs) auto

lemma keys_assoc_put: "fst ` set (assoc_put k v kvs) = insert k (fst ` set kvs)"
proof -
  have "map_of (assoc_put k v kvs) = (map_of kvs)(k \<mapsto> v)"
    by (rule ext) (simp add: map_of_assoc_put)
  then have "dom (map_of (assoc_put k v kvs)) = insert k (dom (map_of kvs))"
    by simp
  then show ?thesis
    by (simp add: dom_map_of_conv_image_fst)
qed

lemma filter_assoc_put:
  "\<exists>rest. filter (\<lambda>(i, x). i \<in> set [k]) (assoc_put k v kvs) = (k, v) # rest"
  by (induction kvs) auto

lemma map_of_fold_set_prop:
  "map_of (fold (\<lambda>k. set_prop k (f k)) ks tgt) k' =
     (if k' \<in> set ks then Some (f k') else map_of tgt k')"
  by (induction ks arbitrary: tgt) (auto simp: set_prop_def map_of_assoc_put)

lemma keys_fold_set_prop:
  "fst ` set (fold (\<lambda>k. set_prop k (f k)) ks tgt) = set ks \<union> fst ` set tgt"
  by (induction ks arbitrary: tgt) (auto simp: set_prop_def keys_assoc_put)

lemma get_prop_spread:
  "get_prop (spread src tgt) k =
     (if k \<in> fst ` set (own_props src) then get_prop (own_props src) k else get_prop tgt k)"
  by (simp add: spread_def get_prop_def map_of_fold_set_prop own_keys_def)

lemma keys_spread:
  "fst ` set (spread src tgt) = fst ` set (own_props src) \<union> fst ` set tgt"
  by (simp add: spread_def keys_fold_set_prop own_keys_def)

section \<open>Unknown tools\<close>

text \<open>
  Claim C5. A tool name outside the seven-tool catalogue falls to the \<^verbatim>\<open>default\<close>
  branch, whose exception the \<^verbatim>\<open>catch\<close> block turns into the error-tagged response
  \<^verbatim>\<open>{success: false, error: "Unknown tool: <name>"}\<close> with \<^verbatim>\<open>isError: true\<close>; the world
  comes back as it was, so no request went to the embedding provider or to the store.
\<close>

theorem unknown_tool_error_tagged:
  assumes "name req \<notin> set (map tool_name tools)"
  shows "call_tool cfg amb req w =
           (\<lparr>body = JObj [(''success'', JBool False),
                          (''error'', JStr (''Unknown tool: '' @ name req))],
             isError = True\<rparr>, w)"
proof -
  from assms have "switch_tool cfg amb req w = (Inl (Error (''Unknown tool: '' @ name req)), w)"
    by (simp add: tools_def switch_tool_def)
  then show ?thesis
    by (simp add: call_tool_def error_result_def)
qed

theorem unknown_tool_error_tagged_witness:
  "name \<lparr>name = ''drop_collection'', arguments = None\<rparr> \<notin> set (map tool_name tools) \<and>
   call_tool demo_cfg demo_amb \<lparr>name = ''drop_collection'', arguments = None\<rparr> demo_world =
     (\<lparr>body = JObj [(''success'', JBool False),
                    (''error'', JStr ''Unknown tool: drop_collection'')],
       isError = True\<rparr>, demo_world)"
  using unknown_tool_error_tagged
    [of "\<lparr>name = ''drop_collection'', arguments = None\<rparr>" demo_cfg demo_amb demo_world]
  by (simp add: tools_def)

section \<open>Unfolding bundles\<close>

lemmas service_defs =
  generateEmbedding_def createCollection_def storeMemory_def searchSimilar_def deleteMemory_def
  getMemory_def listMemories_def clearAllMemories_def getStats_def

lemmas client_defs =
  client_embeddings_create_def client_getCollections_def client_createCollection_def
  client_upsert_def client_search_def client_delete_points_def client_delete_filter_def
  client_retrieve_def client_scroll_def client_getCollection_def
  request_def send_def await_def on_collection_def set_points_def not_found_def

lemmas handler_defs =
  call_tool_def switch_tool_def store_memory_def search_memory_def delete_memory_def
  get_memory_def list_memories_def get_stats_def clear_all_memories_def
  destructure_def text_result_def error_result_def format_result_def format_memory_def Let_def

lemmas demo_defs = demo_cfg_def demo_world_def demo_amb_def

section \<open>Reading a record back\<close>

lemma call_tool_ok:
  "call_tool cfg amb req w = (r, w') \<Longrightarrow> \<not> isError r \<Longrightarrow> switch_tool cfg amb req w = (Inr r, w')"
  by (auto simp: call_tool_def error_result_def split: prod.splits sum.splits)

lemma switch_get_memory:
  "switch_tool cfg amb \<lparr>name = ''get_memory'', arguments = args\<rparr> w = get_memory cfg args w"
  by (simp add: switch_tool_def)

text \<open>
  Claim C6. Whenever the store answers the retrieve request for the given id with a list
  of records, \<^verbatim>\<open>get_memory\<close> returns an ordinary response (no error tag, nothing
  thrown): for the empty list the body is \<^verbatim>\<open>{success: false, message: "Memory <id> not found"}\<close>,
  otherwise it is \<^verbatim>\<open>{success: true, memory: {id, payload}}\<close> of the first record.
\<close>

theorem get_memory_absent_is_data:
  assumes "client_retrieve (collectionName cfg) [get_prop a ''id''] w = (Inr rs, w')"
  shows "call_tool cfg amb \<lparr>name = ''get_memory'', arguments = Some a\<rparr> w =
           (case rs of
              [] \<Rightarrow>
                (\<lparr>body = JObj [(''success'', JBool False),
                               (''message'',
                                  JStr (''Memory '' @ to_string (get_prop a ''id'') @ '' not found''))],
                  isError = False\<rparr>, w')
            | r # _ \<Rightarrow>
                (\<lparr>body = JObj [(''success'', JBool True),
                               (''memory'', JObj [(''id'', pt_id r), (''payload'', pt_payload r)])],
                  isError = False\<rparr>, w'))"
  using assms
  by (simp add: call_tool_def switch_get_memory get_memory_def destructure_def getMemory_def
      await_def text_result_def split: list.splits)

theorem get_memory_absent_is_data_witness:
  "client_retrieve (collectionName demo_cfg) [get_prop [(''id'', JStr ''no-such-id'')] ''id''] demo_world =
     (Inr [], demo_world\<lparr>calls := [Retrieve ''semantic_memory'' [JStr ''no-such-id'']]\<rparr>) \<and>
   call_tool demo_cfg demo_amb
     \<lparr>name = ''get_memory'', arguments = Some [(''id'', JStr ''no-such-id'')]\<rparr> demo_world =
     (\<lparr>body = JObj [(''success'', JBool False),
                    (''message'', JStr ''Memory no-such-id not found'')],
       isError = False\<rparr>,
      demo_world\<lparr>calls := [Retrieve ''semantic_memory'' [JStr ''no-such-id'']]\<rparr>)"
proof -
  have r: "client_retrieve (collectionName demo_cfg) [get_prop [(''id'', JStr ''no-such-id'')] ''id''] demo_world =
     (Inr [], demo_world\<lparr>calls := [Retrieve ''semantic_memory'' [JStr ''no-such-id'']]\<rparr>)"
    by (simp add: client_retrieve_def request_def send_def await_def on_collection_def
        demo_world_def demo_cfg_def get_prop_def)
  show ?thesis
    using get_memory_absent_is_data [OF r, of demo_amb] r by (simp add: get_prop_def)
qed

section \<open>The response of a successful store\<close>

lemma switch_store_memory:
  "switch_tool cfg amb \<lparr>name = ''store_memory'', arguments = args\<rparr> w = store_memory cfg amb args w"
  by (simp add: switch_tool_def)

lemma store_memory_Inr:
  assumes "store_memory cfg amb (Some a) w = (Inr r, w')"
  shows "\<exists>s v w1.
           get_prop a ''content'' = JStr s \<and>
           generateEmbedding cfg (JStr s) w = (Inr v, w1) \<and>
           storeMemory cfg (uuidv4 amb) v
             (JObj (spread (default_to (JObj []) (get_prop a ''metadata''))
                [(''content'', JStr s), (''timestamp'', JStr (now_iso amb))])) w1 = (Inr (), w') \<and>
           r = text_result
                 [(''success'', JBool True),
                  (''message'', JStr ''Memory stored successfully''),
                  (''id'', JStr (uuidv4 amb)),
                  (''content'', JStr (substring0 100 s @ (if length s > 100 then ''...'' else []))),
                  (''metadata'', default_to (JObj []) (get_prop a ''metadata''))]"
  using assms
  by (auto simp: store_memory_def destructure_def Let_def await_def
      split: prod.splits sum.splits json.splits)

text \<open>
  Claim C7. When \<^verbatim>\<open>store_memory\<close> is called with a string as content and answers
  without the error tag, the body is \<^verbatim>\<open>{success: true, message, id, content, metadata}\<close>
  where \<^verbatim>\<open>id\<close> is the freshly minted identifier, \<^verbatim>\<open>content\<close> is the original text
  if it has at most 100 characters and its first 100 characters followed by \<^verbatim>\<open>...\<close>
  otherwise, and \<^verbatim>\<open>metadata\<close> is the supplied metadata (the empty object when none
  was supplied).
\<close>

theorem store_memory_reports_truncated_content:
  assumes "call_tool cfg amb \<lparr>name = ''store_memory'', arguments = Some a\<rparr> w = (r, w')"
    and "get_prop a ''content'' = JStr s"
    and "\<not> isError r"
  shows "body r =
           JObj [(''success'', JBool True),
                 (''message'', JStr ''Memory stored successfully''),
                 (''id'', JStr (uuidv4 amb)),
                 (''content'', JStr (if length s \<le> 100 then s else take 100 s @ ''...'')),
                 (''metadata'',
                    if get_prop a ''metadata'' = JUndefined then JObj []
                    else get_prop a ''metadata'')]"
proof -
  from call_tool_ok [OF assms(1) assms(3)]
  have "store_memory cfg amb (Some a) w = (Inr r, w')"
    by (simp add: switch_store_memory)
  from store_memory_Inr [OF this] assms(2) show ?thesis
    by (auto simp: text_result_def substring0_def default_to_def)
qed

theorem store_memory_reports_truncated_content_witness:
  "call_tool demo_cfg demo_amb
     \<lparr>name = ''store_memory'',
      arguments = Some [(''content'', JStr (replicate 101 (CHR ''a''))),
                        (''metadata'', JObj [(''tags'', JArr [JStr ''auth''])])]\<rparr> demo_world =
     (fst (call_tool demo_cfg demo_amb
        \<lparr>name = ''store_memory'',
         arguments = Some [(''content'', JStr (replicate 101 (CHR ''a''))),
                           (''metadata'', JObj [(''tags'', JArr [JStr ''auth''])])]\<rparr> demo_world),
      snd (call_tool demo_cfg demo_amb
        \<lparr>name = ''store_memory'',
         arguments = Some [(''content'', JStr (replicate 101 (CHR ''a''))),
                           (''metadata'', JObj [(''tags'', JArr [JStr ''auth''])])]\<rparr> demo_world)) \<and>
   get_prop [(''content'', JStr (replicate 101 (CHR ''a''))),
             (''metadata'', JObj [(''tags'', JArr [JStr ''auth''])])] ''content'' =
     JStr (replicate 101 (CHR ''a'')) \<and>
   \<not> isError (fst (call_tool demo_cfg demo_amb
        \<lparr>name = ''store_memory'',
         arguments = Some [(''content'', JStr (replicate 101 (CHR ''a''))),
                           (''metadata'', JObj [(''tags'', JArr [JStr ''auth''])])]\<rparr> demo_world)) \<and>
   body (fst (call_tool demo_cfg demo_amb
        \<lparr>name = ''store_memory'',
         arguments = Some [(''content'', JStr (replicate 101 (CHR ''a''))),
                           (''metadata'', JObj [(''tags'', JArr [JStr ''auth''])])]\<rparr> demo_world)) =
     JObj [(''success'', JBool True),
           (''message'', JStr ''Memory stored successfully''),
           (''id'', JStr ''0b1f6f0e-0001''),
           (''content'', JStr (replicate 100 (CHR ''a'') @ ''...'')),
           (''metadata'', JObj [(''tags'', JArr [JStr ''auth''])])]"
proof -
  let ?a = "[(''content'', JStr (replicate 101 (CHR ''a''))),
             (''metadata'', JObj [(''tags'', JArr [JStr ''auth''])])]"
  let ?run = "call_tool demo_cfg demo_amb \<lparr>name = ''store_memory'', arguments = Some ?a\<rparr> demo_world"
  have c: "get_prop ?a ''content'' = JStr (replicate 101 (CHR ''a''))"
    by (simp add: get_prop_def)
  have m: "get_prop ?a ''metadata'' = JObj [(''tags'', JArr [JStr ''auth''])]"
    by (simp add: get_prop_def)
  have ok: "\<not> isError (fst ?run)"
    by (simp add: handler_defs service_defs client_defs demo_defs c m default_to_def)
  have run: "?run = (fst ?run, snd ?run)"
    by simp
  from store_memory_reports_truncated_content [OF run c ok] m
  have "body (fst ?run) =
     JObj [(''success'', JBool True),
           (''message'', JStr ''Memory stored successfully''),
           (''id'', JStr ''0b1f6f0e-0001''),
           (''content'', JStr (replicate 100 (CHR ''a'') @ ''...'')),
           (''metadata'', JObj [(''tags'', JArr [JStr ''auth''])])]"
    by (simp add: demo_amb_def)
  with c ok show ?thesis by simp
qed

section \<open>Clearing the collection\<close>

lemma switch_clear_all_memories:
  "switch_tool cfg amb \<lparr>name = ''clear_all_memories'', arguments = args\<rparr> w =
     clear_all_memories cfg args w"
  by (simp add: switch_tool_def)

lemma falsy_values:
  "\<not> truthy v \<longleftrightarrow> v \<in> {JUndefined, JNull, JBool False, JNum 0, JStr []}"
  by (cases v) auto

lemma calls_clearAllMemories:
  "calls (snd (clearAllMemories cfg w)) = calls w @ [DeleteFilter (collectionName cfg) (JObj [])]"
  by (simp add: clearAllMemories_def client_defs split: list.splits option.splits)

text \<open>
  Claim C2. The handler tests \<^verbatim>\<open>!confirm\<close>. With an argument object whose
  \<^verbatim>\<open>confirm\<close> is falsy (missing, \<^verbatim>\<open>null\<close>, \<^verbatim>\<open>false\<close>, \<^verbatim>\<open>0\<close> or the empty
  string) it sends nothing to the store, leaves the world as it was and returns the
  ordinary response \<^verbatim>\<open>{success: false, message}\<close> without the error tag. With any
  other value (\<^verbatim>\<open>true\<close>, and also truthy values such as \<^verbatim>\<open>1\<close> or \<^verbatim>\<open>"yes"\<close>)
  exactly one request goes out, the deletion by the empty filter. A call without any
  argument object deletes nothing either.
\<close>

theorem clear_all_memories_confirm_gate:
  "(get_prop a ''confirm'' \<in> {JUndefined, JNull, JBool False, JNum 0, JStr []} \<longrightarrow>
      call_tool cfg amb \<lparr>name = ''clear_all_memories'', arguments = Some a\<rparr> w =
        (\<lparr>body = JObj [(''success'', JBool False),
                       (''message'',
                          JStr ''You must confirm with confirm=true to delete all memories'')],
          isError = False\<rparr>, w)) \<and>
   (get_prop a ''confirm'' \<notin> {JUndefined, JNull, JBool False, JNum 0, JStr []} \<longrightarrow>
      calls (snd (call_tool cfg amb \<lparr>name = ''clear_all_memories'', arguments = Some a\<rparr> w)) =
        calls w @ [DeleteFilter (collectionName cfg) (JObj [])]) \<and>
   snd (call_tool cfg amb \<lparr>name = ''clear_all_memories'', arguments = None\<rparr> w) = w"
proof (intro conjI impI)
  assume "get_prop a ''confirm'' \<in> {JUndefined, JNull, JBool False, JNum 0, JStr []}"
  then have "\<not> truthy (get_prop a ''confirm'')"
    by (simp only: falsy_values)
  then show "call_tool cfg amb \<lparr>name = ''clear_all_memories'', arguments = Some a\<rparr> w =
        (\<lparr>body = JObj [(''success'', JBool False),
                       (''message'',
                          JStr ''You must confirm with confirm=true to delete all memories'')],
          isError = False\<rparr>, w)"
    by (simp add: call_tool_def switch_clear_all_memories clear_all_memories_def
        destructure_def text_result_def)
next
  assume "get_prop a ''confirm'' \<notin> {JUndefined, JNull, JBool False, JNum 0, JStr []}"
  then have t: "truthy (get_prop a ''confirm'')"
    using falsy_values by blast
  have "snd (call_tool cfg amb \<lparr>name = ''clear_all_memories'', arguments = Some a\<rparr> w) =
          snd (clearAllMemories cfg w)"
    using t
    by (cases "clearAllMemories cfg w")
       (auto simp: call_tool_def switch_clear_all_memories clear_all_memories_def
          destructure_def await_def split: sum.splits)
  then show "calls (snd (call_tool cfg amb \<lparr>name = ''clear_all_memories'', arguments = Some a\<rparr> w)) =
        calls w @ [DeleteFilter (collectionName cfg) (JObj [])]"
    by (simp add: calls_clearAllMemories)
next
  show "snd (call_tool cfg amb \<lparr>name = ''clear_all_memories'', arguments = None\<rparr> w) = w"
    by (simp add: call_tool_def switch_clear_all_memories clear_all_memories_def destructure_def)
qed

theorem clear_all_memories_confirm_gate_witness:
  "get_prop [(''confirm'', JBool False)] ''confirm'' \<in> {JUndefined, JNull, JBool False, JNum 0, JStr []} \<and>
   call_tool demo_cfg demo_amb
     \<lparr>name = ''clear_all_memories'', arguments = Some [(''confirm'', JBool False)]\<rparr> demo_filled =
     (\<lparr>body = JObj [(''success'', JBool False),
                    (''message'',
                       JStr ''You must confirm with confirm=true to delete all memories'')],
       isError = False\<rparr>, demo_filled) \<and>
   get_prop [(''confirm'', JNum 1)] ''confirm'' \<notin> {JUndefined, JNull, JBool False, JNum 0, JStr []} \<and>
   calls (snd (call_tool demo_cfg demo_amb
     \<lparr>name = ''clear_all_memories'', arguments = Some [(''confirm'', JNum 1)]\<rparr> demo_filled)) =
     [DeleteFilter ''semantic_memory'' (JObj [])] \<and>
   get_prop [(''confirm'', JBool True)] ''confirm'' \<notin> {JUndefined, JNull, JBool False, JNum 0, JStr []} \<and>
   calls (snd (call_tool demo_cfg demo_amb
     \<lparr>name = ''clear_all_memories'', arguments = Some [(''confirm'', JBool True)]\<rparr> demo_filled)) =
     [DeleteFilter ''semantic_memory'' (JObj [])] \<and>
   get_prop [] ''confirm'' \<in> {JUndefined, JNull, JBool False, JNum 0, JStr []} \<and>
   call_tool demo_cfg demo_amb
     \<lparr>name = ''clear_all_memories'', arguments = Some []\<rparr> demo_filled =
     (\<lparr>body = JObj [(''success'', JBool False),
                    (''message'',
                       JStr ''You must confirm with confirm=true to delete all memories'')],
       isError = False\<rparr>, demo_filled) \<and>
   get_prop [(''confirm'', JStr ''yes'')] ''confirm'' \<notin> {JUndefined, JNull, JBool False, JNum 0, JStr []} \<and>
   calls (snd (call_tool demo_cfg demo_amb
     \<lparr>name = ''clear_all_memories'', arguments = Some [(''confirm'', JStr ''yes'')]\<rparr> demo_filled)) =
     [DeleteFilter ''semantic_memory'' (JObj [])]"
  using clear_all_memories_confirm_gate
      [of "[(''confirm'', JBool False)]" demo_cfg demo_amb demo_filled]
    clear_all_memories_confirm_gate
      [of "[(''confirm'', JNum 1)]" demo_cfg demo_amb demo_filled]
    clear_all_memories_confirm_gate
      [of "[(''confirm'', JBool True)]" demo_cfg demo_amb demo_filled]
    clear_all_memories_confirm_gate
      [of "[]" demo_cfg demo_amb demo_filled]
    clear_all_memories_confirm_gate
      [of "[(''confirm'', JStr ''yes'')]" demo_cfg demo_amb demo_filled]
  by (simp add: get_prop_def demo_cfg_def demo_filled_def demo_world_def)

section \<open>Searching\<close>

lemma snd_call_tool: "snd (call_tool cfg amb req w) = snd (switch_tool cfg amb req w)"
  by (simp add: call_tool_def split: prod.splits sum.splits)

lemma snd_await_pure: "snd (await r (\<lambda>x w'. (f x w', w'))) = snd r"
  by (cases r) (simp add: await_def split: sum.splits)

lemma calls_generateEmbedding:
  "calls (snd (generateEmbedding cfg t w)) =
     calls w @ [EmbeddingsCreate (model cfg) t (dimensions cfg)]"
  by (simp add: generateEmbedding_def client_defs split: list.splits option.splits)

lemma calls_client_search:
  "calls (snd (client_search n v l t f w)) = calls w @ [Search n v l t f]"
  by (simp add: client_defs split: list.splits option.splits)

lemma default_to_twice: "default_to d (default_to d v) = default_to d v"
  by (simp add: default_to_def)

lemma switch_search_memory:
  "switch_tool cfg amb \<lparr>name = ''search_memory'', arguments = args\<rparr> w = search_memory cfg args w"
  by (simp add: switch_tool_def)

lemma search_memory_after_embedding:
  assumes "generateEmbedding cfg (get_prop a ''query'') w = (Inr v, w1)"
  shows "search_memory cfg (Some a) w =
           await (client_search (collectionName cfg) v
                    (default_to (JNum 5) (get_prop a ''limit''))
                    (default_to (JNum (7 / 10)) (get_prop a ''threshold''))
                    (get_prop a ''filter'') w1)
             (\<lambda>results w2.
                (Inr (text_result
                   [(''success'', JBool True),
                    (''query'', get_prop a ''query''),
                    (''results_count'', JNum (of_nat (length results))),
                    (''results'', JArr (map format_result results))]), w2))"
  using assms
  by (simp add: search_memory_def destructure_def Let_def await_def searchSimilar_def
      default_to_twice)

text \<open>
  Claim C8. Once the embedding of the query has come back as \<open>v\<close>, the requests of a
  \<^verbatim>\<open>search_memory\<close> call are exactly the embedding request for the query and one
  search request carrying \<open>v\<close>, the limit (5 when the argument is missing), the
  threshold (0.7 when the argument is missing, otherwise the caller's value as it is)
  and the filter as given. When the store answers that search with no match, the
  response is the ordinary \<^verbatim>\<open>{success: true, query, results_count: 0, results: []}\<close>.
\<close>

theorem search_memory_forwards_parameters:
  assumes "generateEmbedding cfg (get_prop a ''query'') w = (Inr v, w1)"
  shows "calls (snd (call_tool cfg amb \<lparr>name = ''search_memory'', arguments = Some a\<rparr> w)) =
           calls w @
             [EmbeddingsCreate (model cfg) (get_prop a ''query'') (dimensions cfg),
              Search (collectionName cfg) v
                (if get_prop a ''limit'' = JUndefined then JNum 5 else get_prop a ''limit'')
                (if get_prop a ''threshold'' = JUndefined then JNum (7 / 10)
                 else get_prop a ''threshold'')
                (get_prop a ''filter'')] \<and>
         (client_search (collectionName cfg) v
            (if get_prop a ''limit'' = JUndefined then JNum 5 else get_prop a ''limit'')
            (if get_prop a ''threshold'' = JUndefined then JNum (7 / 10)
             else get_prop a ''threshold'')
            (get_prop a ''filter'') w1 = (Inr [], w2) \<longrightarrow>
          call_tool cfg amb \<lparr>name = ''search_memory'', arguments = Some a\<rparr> w =
            (\<lparr>body = JObj [(''success'', JBool True),
                           (''query'', get_prop a ''query''),
                           (''results_count'', JNum 0),
                           (''results'', JArr [])],
              isError = False\<rparr>, w2))"
proof (intro conjI impI)
  have w1: "calls w1 = calls w @ [EmbeddingsCreate (model cfg) (get_prop a ''query'') (dimensions cfg)]"
    using calls_generateEmbedding [of cfg "get_prop a ''query''" w] assms by simp
  have "snd (call_tool cfg amb \<lparr>name = ''search_memory'', arguments = Some a\<rparr> w) =
          snd (client_search (collectionName cfg) v
                    (default_to (JNum 5) (get_prop a ''limit''))
                    (default_to (JNum (7 / 10)) (get_prop a ''threshold''))
                    (get_prop a ''filter'') w1)"
    by (simp only: snd_call_tool switch_search_memory search_memory_after_embedding [OF assms]
        snd_await_pure)
  then show "calls (snd (call_tool cfg amb \<lparr>name = ''search_memory'', arguments = Some a\<rparr> w)) =
           calls w @
             [EmbeddingsCreate (model cfg) (get_prop a ''query'') (dimensions cfg),
              Search (collectionName cfg) v
                (if get_prop a ''limit'' = JUndefined then JNum 5 else get_prop a ''limit'')
                (if get_prop a ''threshold'' = JUndefined then JNum (7 / 10)
                 else get_prop a ''threshold'')
                (get_prop a ''filter'')]"
    by (simp add: calls_client_search w1 default_to_def)
next
  assume "client_search (collectionName cfg) v
            (if get_prop a ''limit'' = JUndefined then JNum 5 else get_prop a ''limit'')
            (if get_prop a ''threshold'' = JUndefined then JNum (7 / 10)
             else get_prop a ''threshold'')
            (get_prop a ''filter'') w1 = (Inr [], w2)"
  then have "client_search (collectionName cfg) v
                    (default_to (JNum 5) (get_prop a ''limit''))
                    (default_to (JNum (7 / 10)) (get_prop a ''threshold''))
                    (get_prop a ''filter'') w1 = (Inr [], w2)"
    by (simp add: default_to_def)
  then show "call_tool cfg amb \<lparr>name = ''search_memory'', arguments = Some a\<rparr> w =
            (\<lparr>body = JObj [(''success'', JBool True),
                           (''query'', get_prop a ''query''),
                           (''results_count'', JNum 0),
                           (''results'', JArr [])],
              isError = False\<rparr>, w2)"
    by (simp add: call_tool_def switch_search_memory search_memory_after_embedding [OF assms]
        await_def text_result_def)
qed

theorem search_memory_forwards_parameters_witness:
  "generateEmbedding demo_cfg (get_prop [(''query'', JStr ''how are users authenticated'')] ''query'')
     demo_world =
     (Inr [1, 0],
      demo_world\<lparr>calls := [EmbeddingsCreate ''text-embedding-3-large''
                               (JStr ''how are users authenticated'') 2]\<rparr>) \<and>
   calls (snd (call_tool demo_cfg demo_amb
     \<lparr>name = ''search_memory'',
      arguments = Some [(''query'', JStr ''how are users authenticated'')]\<rparr> demo_world)) =
     [EmbeddingsCreate ''text-embedding-3-large'' (JStr ''how are users authenticated'') 2,
      Search ''semantic_memory'' [1, 0] (JNum 5) (JNum (7 / 10)) JUndefined] \<and>
   call_tool demo_cfg demo_amb
     \<lparr>name = ''search_memory'',
      arguments = Some [(''query'', JStr ''how are users authenticated'')]\<rparr> demo_world =
     (\<lparr>body = JObj [(''success'', JBool True),
                    (''query'', JStr ''how are users authenticated''),
                    (''results_count'', JNum 0),
                    (''results'', JArr [])],
       isError = False\<rparr>,
      demo_world\<lparr>calls :=
        [EmbeddingsCreate ''text-embedding-3-large'' (JStr ''how are users authenticated'') 2,
         Search ''semantic_memory'' [1, 0] (JNum 5) (JNum (7 / 10)) JUndefined]\<rparr>)"
proof -
  let ?a = "[(''query'', JStr ''how are users authenticated'')]"
  let ?w1 = "demo_world\<lparr>calls := [EmbeddingsCreate ''text-embedding-3-large''
                               (JStr ''how are users authenticated'') 2]\<rparr>"
  let ?w2 = "demo_world\<lparr>calls :=
        [EmbeddingsCreate ''text-embedding-3-large'' (JStr ''how are users authenticated'') 2,
         Search ''semantic_memory'' [1, 0] (JNum 5) (JNum (7 / 10)) JUndefined]\<rparr>"
  have g: "generateEmbedding demo_cfg (get_prop ?a ''query'') demo_world = (Inr [1, 0], ?w1)"
    by (simp add: generateEmbedding_def client_defs demo_defs get_prop_def)
  have s: "client_search (collectionName demo_cfg) [1, 0]
            (if get_prop ?a ''limit'' = JUndefined then JNum 5 else get_prop ?a ''limit'')
            (if get_prop ?a ''threshold'' = JUndefined then JNum (7 / 10)
             else get_prop ?a ''threshold'')
            (get_prop ?a ''filter'') ?w1 = (Inr [], ?w2)"
    by (simp add: client_defs demo_defs get_prop_def)
  from search_memory_forwards_parameters [OF g, of demo_amb ?w2] s g
  show ?thesis
    by (simp add: get_prop_def demo_defs)
qed

section \<open>What a returned item carries\<close>

lemma switch_list_memories:
  "switch_tool cfg amb \<lparr>name = ''list_memories'', arguments = args\<rparr> w = list_memories cfg args w"
  by (simp add: switch_tool_def)

text \<open>
  Claim C10. For the records \<open>rs\<close> the store answers a search with, and for the records
  \<open>ms\<close> it answers a scroll with, every item of a successful \<^verbatim>\<open>search_memory\<close> or
  \<^verbatim>\<open>list_memories\<close> response has as \<^verbatim>\<open>metadata\<close> the whole payload of its record,
  reserved keys \<^verbatim>\<open>content\<close> and \<^verbatim>\<open>timestamp\<close> included, while \<^verbatim>\<open>content\<close> (and
  \<^verbatim>\<open>timestamp\<close> in a listing) repeat the properties of that same payload.
\<close>

theorem item_metadata_is_whole_payload:
  "(generateEmbedding cfg (get_prop a ''query'') w = (Inr v, w1) \<and>
    searchSimilar cfg v (default_to (JNum 5) (get_prop a ''limit''))
      (default_to (JNum (7 / 10)) (get_prop a ''threshold'')) (get_prop a ''filter'') w1 =
      (Inr rs, w2) \<longrightarrow>
    call_tool cfg amb \<lparr>name = ''search_memory'', arguments = Some a\<rparr> w =
      (\<lparr>body = JObj
          [(''success'', JBool True),
           (''query'', get_prop a ''query''),
           (''results_count'', JNum (of_nat (length rs))),
           (''results'', JArr (map (\<lambda>p.
              JObj [(''id'', pt_id p),
                    (''score'', pt_score p),
                    (''content'', opt_member (pt_payload p) ''content''),
                    (''metadata'', pt_payload p)]) rs))],
        isError = False\<rparr>, w2)) \<and>
   (listMemories cfg (default_to (JNum 10) (get_prop b ''limit'')) (get_prop b ''offset'') w =
      (Inr ms, w3) \<longrightarrow>
    call_tool cfg amb \<lparr>name = ''list_memories'', arguments = Some b\<rparr> w =
      (\<lparr>body = JObj
          [(''success'', JBool True),
           (''count'', JNum (of_nat (length ms))),
           (''memories'', JArr (map (\<lambda>p.
              JObj [(''id'', pt_id p),
                    (''content'', opt_member (pt_payload p) ''content''),
                    (''timestamp'', opt_member (pt_payload p) ''timestamp''),
                    (''metadata'', pt_payload p)]) ms))],
        isError = False\<rparr>, w3))"
proof (intro conjI impI)
  assume "generateEmbedding cfg (get_prop a ''query'') w = (Inr v, w1) \<and>
    searchSimilar cfg v (default_to (JNum 5) (get_prop a ''limit''))
      (default_to (JNum (7 / 10)) (get_prop a ''threshold'')) (get_prop a ''filter'') w1 =
      (Inr rs, w2)"
  then show "call_tool cfg amb \<lparr>name = ''search_memory'', arguments = Some a\<rparr> w =
      (\<lparr>body = JObj
          [(''success'', JBool True),
           (''query'', get_prop a ''query''),
           (''results_count'', JNum (of_nat (length rs))),
           (''results'', JArr (map (\<lambda>p.
              JObj [(''id'', pt_id p),
                    (''score'', pt_score p),
                    (''content'', opt_member (pt_payload p) ''content''),
                    (''metadata'', pt_payload p)]) rs))],
        isError = False\<rparr>, w2)"
    by (simp add: call_tool_def switch_search_memory search_memory_def destructure_def Let_def
        await_def text_result_def format_result_def)
next
  assume "listMemories cfg (default_to (JNum 10) (get_prop b ''limit'')) (get_prop b ''offset'') w =
      (Inr ms, w3)"
  then show "call_tool cfg amb \<lparr>name = ''list_memories'', arguments = Some b\<rparr> w =
      (\<lparr>body = JObj
          [(''success'', JBool True),
           (''count'', JNum (of_nat (length ms))),
           (''memories'', JArr (map (\<lambda>p.
              JObj [(''id'', pt_id p),
                    (''content'', opt_member (pt_payload p) ''content''),
                    (''timestamp'', opt_member (pt_payload p) ''timestamp''),
                    (''metadata'', pt_payload p)]) ms))],
        isError = False\<rparr>, w3)"
    by (simp add: call_tool_def switch_list_memories list_memories_def destructure_def Let_def
        await_def text_result_def format_memory_def)
qed

theorem item_metadata_is_whole_payload_witness:
  "(generateEmbedding demo_cfg (get_prop [(''query'', JStr ''jwt'')] ''query'') demo_filled =
      (Inr [1, 0],
       demo_filled\<lparr>calls := [EmbeddingsCreate ''text-embedding-3-large'' (JStr ''jwt'') 2]\<rparr>) \<and>
    searchSimilar demo_cfg [1, 0] (default_to (JNum 5) (get_prop [(''query'', JStr ''jwt'')] ''limit''))
      (default_to (JNum (7 / 10)) (get_prop [(''query'', JStr ''jwt'')] ''threshold''))
      (get_prop [(''query'', JStr ''jwt'')] ''filter'')
      (demo_filled\<lparr>calls := [EmbeddingsCreate ''text-embedding-3-large'' (JStr ''jwt'') 2]\<rparr>) =
      (Inr [\<lparr>pt_id = JStr ''0b1f6f0e-0001'', pt_score = JNum 1, pt_payload = demo_payload\<rparr>],
       demo_filled\<lparr>calls :=
         [EmbeddingsCreate ''text-embedding-3-large'' (JStr ''jwt'') 2,
          Search ''semantic_memory'' [1, 0] (JNum 5) (JNum (7 / 10)) JUndefined]\<rparr>)) \<and>
   opt_member (body (fst (call_tool demo_cfg demo_amb
      \<lparr>name = ''search_memory'', arguments = Some [(''query'', JStr ''jwt'')]\<rparr> demo_filled)))
      ''results'' =
     JArr [JObj [(''id'', JStr ''0b1f6f0e-0001''),
                 (''score'', JNum 1),
                 (''content'', JStr ''Our API uses JWT''),
                 (''metadata'',
                    JObj [(''content'', JStr ''Our API uses JWT''),
                          (''timestamp'', JStr ''2024-01-01T00:00:00.000Z''),
                          (''tags'', JArr [JStr ''auth''])])]] \<and>
   listMemories demo_cfg (default_to (JNum 10) (get_prop [] ''limit'')) (get_prop [] ''offset'')
      demo_filled =
      (Inr [\<lparr>pt_id = JStr ''0b1f6f0e-0001'', pt_score = JUndefined, pt_payload = demo_payload\<rparr>],
       demo_filled\<lparr>calls := [Scroll ''semantic_memory'' (JNum 10) JUndefined]\<rparr>) \<and>
   opt_member (body (fst (call_tool demo_cfg demo_amb
      \<lparr>name = ''list_memories'', arguments = Some []\<rparr> demo_filled))) ''memories'' =
     JArr [JObj [(''id'', JStr ''0b1f6f0e-0001''),
                 (''content'', JStr ''Our API uses JWT''),
                 (''timestamp'', JStr ''2024-01-01T00:00:00.000Z''),
                 (''metadata'',
                    JObj [(''content'', JStr ''Our API uses JWT''),
                          (''timestamp'', JStr ''2024-01-01T00:00:00.000Z''),
                          (''tags'', JArr [JStr ''auth''])])]]"
proof -
  let ?a = "[(''query'', JStr ''jwt'')]"
  let ?w1 = "demo_filled\<lparr>calls := [EmbeddingsCreate ''text-embedding-3-large'' (JStr ''jwt'') 2]\<rparr>"
  let ?w2 = "demo_filled\<lparr>calls :=
         [EmbeddingsCreate ''text-embedding-3-large'' (JStr ''jwt'') 2,
          Search ''semantic_memory'' [1, 0] (JNum 5) (JNum (7 / 10)) JUndefined]\<rparr>"
  let ?w3 = "demo_filled\<lparr>calls := [Scroll ''semantic_memory'' (JNum 10) JUndefined]\<rparr>"
  let ?p = "\<lparr>pt_id = JStr ''0b1f6f0e-0001'', pt_score = JNum 1, pt_payload = demo_payload\<rparr>"
  let ?q = "\<lparr>pt_id = JStr ''0b1f6f0e-0001'', pt_score = JUndefined, pt_payload = demo_payload\<rparr>"
  have g: "generateEmbedding demo_cfg (get_prop ?a ''query'') demo_filled = (Inr [1, 0], ?w1)"
    by (simp add: generateEmbedding_def client_defs demo_defs demo_filled_def get_prop_def)
  have s: "searchSimilar demo_cfg [1, 0] (default_to (JNum 5) (get_prop ?a ''limit''))
      (default_to (JNum (7 / 10)) (get_prop ?a ''threshold'')) (get_prop ?a ''filter'') ?w1 =
      (Inr [?p], ?w2)"
    by (simp add: searchSimilar_def client_defs demo_defs demo_filled_def get_prop_def default_to_def)
  have l: "listMemories demo_cfg (default_to (JNum 10) (get_prop [] ''limit'')) (get_prop [] ''offset'')
      demo_filled = (Inr [?q], ?w3)"
    by (simp add: listMemories_def client_defs demo_defs demo_filled_def get_prop_def default_to_def)
  from item_metadata_is_whole_payload
         [of demo_cfg ?a demo_filled "[1, 0]" ?w1 "[?p]" ?w2 demo_amb "[]" "[?q]" ?w3] g s l
  show ?thesis
    by (simp add: get_prop_def demo_payload_def)
qed

section \<open>Creating the collection at startup\<close>

lemma exists_iff_map_of:
  "list_ex (\<lambda>col. col = n) (map fst cs) \<longleftrightarrow> map_of cs n \<noteq> None"
  by (induction cs) auto

lemma createCollection_present:
  assumes "map_of (collections w) (collectionName cfg) = Some c"
  shows "calls (snd (createCollection cfg n w)) = calls w @ [GetCollections]"
    and "collections (snd (createCollection cfg n w)) = collections w"
  using assms
  by (simp_all add: createCollection_def client_getCollections_def request_def send_def await_def
      exists_iff_map_of split: list.splits option.splits)

lemma createCollection_absent:
  assumes "map_of (collections w) (collectionName cfg) = None" and "next_request_passes w"
  shows "calls (snd (createCollection cfg n w)) =
           calls w @ [GetCollections,
                      CreateCollection (collectionName cfg)
                        (case n of None \<Rightarrow> 1536 | Some k \<Rightarrow> k) ''Cosine'']"
  using assms
  by (auto simp: createCollection_def client_getCollections_def client_createCollection_def
      request_def send_def await_def next_request_passes_def exists_iff_map_of
      split: list.splits option.splits)

lemma createCollection_established:
  assumes "createCollection cfg n w = (Inr (), w')"
  shows "\<exists>c. map_of (collections w') (collectionName cfg) = Some c"
  using assms
  by (auto simp: createCollection_def client_getCollections_def client_createCollection_def
      request_def send_def await_def exists_iff_map_of map_add_def
      split: list.splits option.splits if_splits)

text \<open>
  Claim C9. \<^verbatim>\<open>createCollection\<close> first lists the collections. When one with the
  configured name exists, that listing is its only request and the collections, the
  existing one's parameters included, stay as they are. When none exists and the
  listing gets through, the second request creates it with the given size and the
  cosine distance. After a run that returned normally a further run, whatever size it
  is given, only lists: create-if-absent is idempotent.
\<close>

theorem createCollection_create_if_absent:
  "(map_of (collections w) (collectionName cfg) = Some c \<longrightarrow>
      calls (snd (createCollection cfg n w)) = calls w @ [GetCollections] \<and>
      collections (snd (createCollection cfg n w)) = collections w) \<and>
   (map_of (collections w) (collectionName cfg) = None \<and> next_request_passes w \<longrightarrow>
      calls (snd (createCollection cfg n w)) =
        calls w @ [GetCollections,
                   CreateCollection (collectionName cfg)
                     (case n of None \<Rightarrow> 1536 | Some k \<Rightarrow> k) ''Cosine'']) \<and>
   (createCollection cfg n w = (Inr (), w') \<longrightarrow>
      calls (snd (createCollection cfg m w')) = calls w' @ [GetCollections] \<and>
      collections (snd (createCollection cfg m w')) = collections w')"
proof (intro conjI impI)
  assume "createCollection cfg n w = (Inr (), w')"
  then obtain c' where c': "map_of (collections w') (collectionName cfg) = Some c'"
    using createCollection_established by blast
  show "calls (snd (createCollection cfg m w')) = calls w' @ [GetCollections]"
    by (rule createCollection_present(1) [OF c'])
  show "collections (snd (createCollection cfg m w')) = collections w'"
    by (rule createCollection_present(2) [OF c'])
qed (simp_all add: createCollection_present createCollection_absent)

theorem createCollection_create_if_absent_witness:
  "map_of (collections demo_world) (collectionName demo_cfg) =
     Some \<lparr>vec_size = 2, distance = ''Cosine'', points = []\<rparr> \<and>
   calls (snd (createCollection demo_cfg (Some 3072) demo_world)) = [GetCollections] \<and>
   collections (snd (createCollection demo_cfg (Some 3072) demo_world)) = collections demo_world \<and>
   map_of (collections (demo_world\<lparr>collections := []\<rparr>)) (collectionName demo_cfg) = None \<and>
   next_request_passes (demo_world\<lparr>collections := []\<rparr>) \<and>
   calls (snd (createCollection demo_cfg (Some 2) (demo_world\<lparr>collections := []\<rparr>))) =
     [GetCollections, CreateCollection ''semantic_memory'' 2 ''Cosine''] \<and>
   createCollection demo_cfg (Some 2) (demo_world\<lparr>collections := []\<rparr>) =
     (Inr (), demo_world\<lparr>calls := [GetCollections, CreateCollection ''semantic_memory'' 2 ''Cosine'']\<rparr>) \<and>
   collections (snd (createCollection demo_cfg (Some 3072)
       (demo_world\<lparr>calls := [GetCollections, CreateCollection ''semantic_memory'' 2 ''Cosine'']\<rparr>))) =
     [(''semantic_memory'', \<lparr>vec_size = 2, distance = ''Cosine'', points = []\<rparr>)]"
proof -
  let ?w0 = "demo_world\<lparr>collections := []\<rparr>"
  let ?w1 = "demo_world\<lparr>calls := [GetCollections, CreateCollection ''semantic_memory'' 2 ''Cosine'']\<rparr>"
  have present: "map_of (collections demo_world) (collectionName demo_cfg) =
     Some \<lparr>vec_size = 2, distance = ''Cosine'', points = []\<rparr>"
    by (simp add: demo_defs)
  have absent: "map_of (collections ?w0) (collectionName demo_cfg) = None"
    by simp
  have pass: "next_request_passes ?w0"
    by (simp add: next_request_passes_def demo_defs)
  have run: "createCollection demo_cfg (Some 2) ?w0 = (Inr (), ?w1)"
    by (simp add: createCollection_def client_defs demo_defs)
  from createCollection_create_if_absent
         [of demo_world demo_cfg "\<lparr>vec_size = 2, distance = ''Cosine'', points = []\<rparr>" "Some 3072"]
       createCollection_create_if_absent [of ?w0 demo_cfg _ "Some 2" ?w1 "Some 3072"]
       present absent pass run
  show ?thesis
    by (simp add: demo_defs)
qed

section \<open>Storing and reading back\<close>

lemma storeMemory_stored:
  assumes "storeMemory cfg i v p w = (Inr (), w')"
  shows "\<exists>c rest. map_of (collections w') (collectionName cfg) = Some c \<and>
           filter (\<lambda>(j, x). j \<in> set [JStr i]) (points c) = (JStr i, v, p) # rest"
proof -
  from assms obtain c where
    "map_of (collections w') (collectionName cfg) =
       Some (c\<lparr>points := assoc_put (JStr i) (v, p) (points c)\<rparr>)"
    by (auto simp: storeMemory_def client_upsert_def request_def send_def await_def
        on_collection_def set_points_def map_of_assoc_put split: list.splits option.splits)
  moreover obtain rest where
    "filter (\<lambda>(j, x). j \<in> set [JStr i]) (assoc_put (JStr i) (v, p) (points c)) =
       (JStr i, v, p) # rest"
    using filter_assoc_put [of "JStr i" "(v, p)" "points c"] by blast
  ultimately show ?thesis by simp
qed

lemma getMemory_hit:
  assumes "next_request_passes w"
    and "map_of (collections w) (collectionName cfg) = Some c"
    and "filter (\<lambda>(j, x). j \<in> set [i]) (points c) = (i, v, p) # rest"
  shows "fst (getMemory cfg i w) = Inr (Some \<lparr>pt_id = i, pt_score = JUndefined, pt_payload = p\<rparr>)"
  using assms
  by (auto simp: getMemory_def client_retrieve_def request_def send_def await_def
      on_collection_def next_request_passes_def split: list.splits option.splits)

lemma fst_get_memory_hit:
  assumes "fst (getMemory cfg (get_prop a ''id'') w) = Inr (Some m)"
  shows "fst (call_tool cfg amb \<lparr>name = ''get_memory'', arguments = Some a\<rparr> w) =
           \<lparr>body = JObj [(''success'', JBool True),
                         (''memory'', JObj [(''id'', pt_id m), (''payload'', pt_payload m)])],
            isError = False\<rparr>"
  using assms
  by (cases "getMemory cfg (get_prop a ''id'') w")
     (simp add: call_tool_def switch_get_memory get_memory_def destructure_def await_def
        text_result_def)

text \<open>
  Claim C1. Let \<^verbatim>\<open>store_memory\<close> be called with a string \<open>s\<close> as content and an
  object \<open>m\<close> as metadata, and let it answer without the error tag. If the next
  request gets through, \<^verbatim>\<open>get_memory\<close> with the id of that answer returns
  \<^verbatim>\<open>{success: true, memory: {id, payload}}\<close> with the minted id and a payload \<open>p\<close>
  such that: \<^verbatim>\<open>p.content\<close> is \<open>s\<close>, unless \<open>m\<close> has a key \<^verbatim>\<open>content\<close>, whose value
  then takes its place; \<^verbatim>\<open>p.timestamp\<close> is present, and is the time of the store unless
  \<open>m\<close> has a key \<^verbatim>\<open>timestamp\<close>; every key of \<open>m\<close> is a key of \<open>p\<close> with the
  value it has in \<open>m\<close>.
\<close>

theorem store_then_get_roundtrip:
  assumes "call_tool cfg amb \<lparr>name = ''store_memory'', arguments = Some a\<rparr> w = (r1, w1)"
    and "get_prop a ''content'' = JStr s"
    and "get_prop a ''metadata'' = JObj m"
    and "\<not> isError r1"
    and "next_request_passes w1"
  shows "\<exists>p. fst (call_tool cfg amb'
                 \<lparr>name = ''get_memory'',
                  arguments = Some [(''id'', opt_member (body r1) ''id'')]\<rparr> w1) =
               \<lparr>body = JObj [(''success'', JBool True),
                             (''memory'', JObj [(''id'', JStr (uuidv4 amb)),
                                                (''payload'', JObj p)])],
                isError = False\<rparr> \<and>
             get_prop p ''content'' =
               (if ''content'' \<in> fst ` set m then get_prop m ''content'' else JStr s) \<and>
             ''timestamp'' \<in> fst ` set p \<and>
             (''timestamp'' \<notin> fst ` set m \<longrightarrow> get_prop p ''timestamp'' = JStr (now_iso amb)) \<and>
             (\<forall>k \<in> fst ` set m. k \<in> fst ` set p \<and> get_prop p k = get_prop m k)"
proof -
  let ?p = "spread (JObj m) [(''content'', JStr s), (''timestamp'', JStr (now_iso amb))]"
  from call_tool_ok [OF assms(1) assms(4)]
  have "store_memory cfg amb (Some a) w = (Inr r1, w1)"
    by (simp add: switch_store_memory)
  from store_memory_Inr [OF this] assms(2) assms(3) obtain v wa where
    st: "storeMemory cfg (uuidv4 amb) v (JObj ?p) wa = (Inr (), w1)" and
    r1: "opt_member (body r1) ''id'' = JStr (uuidv4 amb)"
    by (auto simp: default_to_def text_result_def get_prop_def)
  from storeMemory_stored [OF st] obtain c rest where
    c: "map_of (collections w1) (collectionName cfg) = Some c" and
    f: "filter (\<lambda>(j, x). j \<in> set [JStr (uuidv4 amb)]) (points c) =
          (JStr (uuidv4 amb), v, JObj ?p) # rest"
    by blast
  have "fst (getMemory cfg (get_prop [(''id'', opt_member (body r1) ''id'')] ''id'') w1) =
          Inr (Some \<lparr>pt_id = JStr (uuidv4 amb), pt_score = JUndefined, pt_payload = JObj ?p\<rparr>)"
    using getMemory_hit [OF assms(5) c f] by (simp add: r1 get_prop_def)
  from fst_get_memory_hit [OF this]
  have resp: "fst (call_tool cfg amb'
                 \<lparr>name = ''get_memory'',
                  arguments = Some [(''id'', opt_member (body r1) ''id'')]\<rparr> w1) =
               \<lparr>body = JObj [(''success'', JBool True),
                             (''memory'', JObj [(''id'', JStr (uuidv4 amb)),
                                                (''payload'', JObj ?p)])],
                isError = False\<rparr>"
    by simp
  have content: "get_prop ?p ''content'' =
               (if ''content'' \<in> fst ` set m then get_prop m ''content'' else JStr s)"
    by (simp add: get_prop_spread) (simp add: get_prop_def)
  have ts: "''timestamp'' \<in> fst ` set ?p"
    by (simp add: keys_spread)
  have ts': "''timestamp'' \<notin> fst ` set m \<longrightarrow> get_prop ?p ''timestamp'' = JStr (now_iso amb)"
    by (simp add: get_prop_spread) (simp add: get_prop_def)
  have keys: "\<forall>k \<in> fst ` set m. k \<in> fst ` set ?p \<and> get_prop ?p k = get_prop m k"
    by (simp add: keys_spread get_prop_spread)
  from resp content ts ts' keys show ?thesis
    by blast
qed

theorem store_then_get_roundtrip_witness:
  "call_tool demo_cfg demo_amb
     \<lparr>name = ''store_memory'',
      arguments = Some [(''content'', JStr ''Our API uses JWT''),
                        (''metadata'', JObj [(''tags'', JArr [JStr ''auth''])])]\<rparr> demo_world =
     (fst (call_tool demo_cfg demo_amb
        \<lparr>name = ''store_memory'',
         arguments = Some [(''content'', JStr ''Our API uses JWT''),
                           (''metadata'', JObj [(''tags'', JArr [JStr ''auth''])])]\<rparr> demo_world),
      snd (call_tool demo_cfg demo_amb
        \<lparr>name = ''store_memory'',
         arguments = Some [(''content'', JStr ''Our API uses JWT''),
                           (''metadata'', JObj [(''tags'', JArr [JStr ''auth''])])]\<rparr> demo_world)) \<and>
   get_prop [(''content'', JStr ''Our API uses JWT''),
             (''metadata'', JObj [(''tags'', JArr [JStr ''auth''])])] ''content'' =
     JStr ''Our API uses JWT'' \<and>
   get_prop [(''content'', JStr ''Our API uses JWT''),
             (''metadata'', JObj [(''tags'', JArr [JStr ''auth''])])] ''metadata'' =
     JObj [(''tags'', JArr [JStr ''auth''])] \<and>
   \<not> isError (fst (call_tool demo_cfg demo_amb
        \<lparr>name = ''store_memory'',
         arguments = Some [(''content'', JStr ''Our API uses JWT''),
                           (''metadata'', JObj [(''tags'', JArr [JStr ''auth''])])]\<rparr> demo_world)) \<and>
   next_request_passes (snd (call_tool demo_cfg demo_amb
        \<lparr>name = ''store_memory'',
         arguments = Some [(''content'', JStr ''Our API uses JWT''),
                           (''metadata'', JObj [(''tags'', JArr [JStr ''auth''])])]\<rparr> demo_world)) \<and>
   (\<exists>p. fst (call_tool demo_cfg \<lparr>uuidv4 = ''0b1f6f0e-0002'', now_iso = ''2024-01-02T00:00:00.000Z''\<rparr>
              \<lparr>name = ''get_memory'', arguments = Some [(''id'', JStr ''0b1f6f0e-0001'')]\<rparr>
              (snd (call_tool demo_cfg demo_amb
                 \<lparr>name = ''store_memory'',
                  arguments = Some [(''content'', JStr ''Our API uses JWT''),
                                    (''metadata'', JObj [(''tags'', JArr [JStr ''auth''])])]\<rparr>
                 demo_world))) =
            \<lparr>body = JObj [(''success'', JBool True),
                          (''memory'', JObj [(''id'', JStr ''0b1f6f0e-0001''),
                                             (''payload'', JObj p)])],
             isError = False\<rparr> \<and>
        get_prop p ''content'' = JStr ''Our API uses JWT'' \<and>
        get_prop p ''timestamp'' = JStr ''2024-01-01T00:00:00.000Z'' \<and>
        get_prop p ''tags'' = JArr [JStr ''auth''])"
proof -
  let ?a = "[(''content'', JStr ''Our API uses JWT''),
             (''metadata'', JObj [(''tags'', JArr [JStr ''auth''])])]"
  let ?run = "call_tool demo_cfg demo_amb \<lparr>name = ''store_memory'', arguments = Some ?a\<rparr> demo_world"
  let ?amb' = "\<lparr>uuidv4 = ''0b1f6f0e-0002'', now_iso = ''2024-01-02T00:00:00.000Z''\<rparr>"
  have run: "?run = (fst ?run, snd ?run)"
    by simp
  have c: "get_prop ?a ''content'' = JStr ''Our API uses JWT''"
    by (simp add: get_prop_def)
  have m: "get_prop ?a ''metadata'' = JObj [(''tags'', JArr [JStr ''auth''])]"
    by (simp add: get_prop_def)
  have ok: "\<not> isError (fst ?run)"
    by (simp add: handler_defs service_defs client_defs demo_defs c m default_to_def)
  have pass: "next_request_passes (snd ?run)"
    by (simp add: handler_defs service_defs client_defs demo_defs c m default_to_def
        next_request_passes_def)
  have ident: "opt_member (body (fst ?run)) ''id'' = JStr ''0b1f6f0e-0001''"
    by (simp add: handler_defs service_defs client_defs demo_defs c m default_to_def get_prop_def)
  from store_then_get_roundtrip [OF run c m ok pass, of ?amb', unfolded ident]
  obtain p where
    "fst (call_tool demo_cfg ?amb'
            \<lparr>name = ''get_memory'', arguments = Some [(''id'', JStr ''0b1f6f0e-0001'')]\<rparr>
            (snd ?run)) =
       \<lparr>body = JObj [(''success'', JBool True),
                     (''memory'', JObj [(''id'', JStr ''0b1f6f0e-0001''), (''payload'', JObj p)])],
        isError = False\<rparr>"
    and "get_prop p ''content'' = JStr ''Our API uses JWT''"
    and "get_prop p ''timestamp'' = JStr ''2024-01-01T00:00:00.000Z''"
    and "get_prop p ''tags'' = JArr [JStr ''auth'']"
    by (auto simp: demo_amb_def get_prop_def)
  with run c m ok pass show ?thesis
    by blast
qed

section \<open>Exceptions of the services\<close>

lemma store_memory_embedding_error:
  assumes "generateEmbedding cfg (get_prop a ''content'') w = (Inl e, w1)"
  shows "call_tool cfg amb \<lparr>name = ''store_memory'', arguments = Some a\<rparr> w = (error_result e, w1)"
  using assms
  by (simp add: call_tool_def switch_store_memory store_memory_def destructure_def Let_def await_def)

lemma store_memory_store_error:
  assumes "generateEmbedding cfg (get_prop a ''content'') w = (Inr v, w1)"
    and "storeMemory cfg (uuidv4 amb) v
           (JObj (spread (default_to (JObj []) (get_prop a ''metadata''))
              [(''content'', get_prop a ''content''), (''timestamp'', JStr (now_iso amb))])) w1 =
           (Inl e, w2)"
  shows "call_tool cfg amb \<lparr>name = ''store_memory'', arguments = Some a\<rparr> w = (error_result e, w2)"
  using assms
  by (simp add: call_tool_def switch_store_memory store_memory_def destructure_def Let_def await_def)

lemma search_memory_embedding_error:
  assumes "generateEmbedding cfg (get_prop a ''query'') w = (Inl e, w1)"
  shows "call_tool cfg amb \<lparr>name = ''search_memory'', arguments = Some a\<rparr> w = (error_result e, w1)"
  using assms
  by (simp add: call_tool_def switch_search_memory search_memory_def destructure_def Let_def await_def)

lemma search_memory_search_error:
  assumes "generateEmbedding cfg (get_prop a ''query'') w = (Inr v, w1)"
    and "searchSimilar cfg v (default_to (JNum 5) (get_prop a ''limit''))
           (default_to (JNum (7 / 10)) (get_prop a ''threshold'')) (get_prop a ''filter'') w1 =
           (Inl e, w2)"
  shows "call_tool cfg amb \<lparr>name = ''search_memory'', arguments = Some a\<rparr> w = (error_result e, w2)"
  using assms
  by (simp add: call_tool_def switch_search_memory search_memory_def destructure_def Let_def await_def)

lemma switch_delete_memory:
  "switch_tool cfg amb \<lparr>name = ''delete_memory'', arguments = args\<rparr> w = delete_memory cfg args w"
  by (simp add: switch_tool_def)

lemma switch_get_stats:
  "switch_tool cfg amb \<lparr>name = ''get_stats'', arguments = args\<rparr> w = get_stats cfg w"
  by (simp add: switch_tool_def)

lemma delete_memory_error:
  assumes "deleteMemory cfg (get_prop a ''id'') w = (Inl e, w1)"
  shows "call_tool cfg amb \<lparr>name = ''delete_memory'', arguments = Some a\<rparr> w = (error_result e, w1)"
  using assms
  by (simp add: call_tool_def switch_delete_memory delete_memory_def destructure_def Let_def await_def)

lemma get_memory_error:
  assumes "getMemory cfg (get_prop a ''id'') w = (Inl e, w1)"
  shows "call_tool cfg amb \<lparr>name = ''get_memory'', arguments = Some a\<rparr> w = (error_result e, w1)"
  using assms
  by (simp add: call_tool_def switch_get_memory get_memory_def destructure_def Let_def await_def)

lemma list_memories_error:
  assumes "listMemories cfg (default_to (JNum 10) (get_prop a ''limit'')) (get_prop a ''offset'') w =
             (Inl e, w1)"
  shows "call_tool cfg amb \<lparr>name = ''list_memories'', arguments = Some a\<rparr> w = (error_result e, w1)"
  using assms
  by (simp add: call_tool_def switch_list_memories list_memories_def destructure_def Let_def await_def)

lemma get_stats_error:
  assumes "getStats cfg w = (Inl e, w1)"
  shows "call_tool cfg amb \<lparr>name = ''get_stats'', arguments = args\<rparr> w = (error_result e, w1)"
  using assms
  by (simp add: call_tool_def switch_get_stats get_stats_def await_def)

lemma clear_all_memories_error:
  assumes "truthy (get_prop a ''confirm'')" and "clearAllMemories cfg w = (Inl e, w1)"
  shows "call_tool cfg amb \<lparr>name = ''clear_all_memories'', arguments = Some a\<rparr> w =
           (error_result e, w1)"
  using assms
  by (simp add: call_tool_def switch_clear_all_memories clear_all_memories_def destructure_def
      Let_def await_def)

section \<open>The catch block\<close>

lemma store_memory_shape:
  "store_memory cfg amb args w = (Inr r, w') \<Longrightarrow>
     \<not> isError r \<and> (\<exists>b. opt_member (body r) ''success'' = JBool b)"
  by (auto simp: store_memory_def destructure_def Let_def await_def text_result_def get_prop_def
      split: option.splits sum.splits prod.splits json.splits)

lemma search_memory_shape:
  "search_memory cfg args w = (Inr r, w') \<Longrightarrow>
     \<not> isError r \<and> (\<exists>b. opt_member (body r) ''success'' = JBool b)"
  by (auto simp: search_memory_def destructure_def Let_def await_def text_result_def get_prop_def
      split: option.splits sum.splits prod.splits)

lemma delete_memory_shape:
  "delete_memory cfg args w = (Inr r, w') \<Longrightarrow>
     \<not> isError r \<and> (\<exists>b. opt_member (body r) ''success'' = JBool b)"
  by (auto simp: delete_memory_def destructure_def Let_def await_def text_result_def get_prop_def
      split: option.splits sum.splits prod.splits)

lemma get_memory_shape:
  "get_memory cfg args w = (Inr r, w') \<Longrightarrow>
     \<not> isError r \<and> (\<exists>b. opt_member (body r) ''success'' = JBool b)"
  by (auto simp: get_memory_def destructure_def Let_def await_def text_result_def get_prop_def
      split: option.splits sum.splits prod.splits)

lemma list_memories_shape:
  "list_memories cfg args w = (Inr r, w') \<Longrightarrow>
     \<not> isError r \<and> (\<exists>b. opt_member (body r) ''success'' = JBool b)"
  by (auto simp: list_memories_def destructure_def Let_def await_def text_result_def get_prop_def
      split: option.splits sum.splits prod.splits)

lemma get_stats_shape:
  "get_stats cfg w = (Inr r, w') \<Longrightarrow>
     \<not> isError r \<and> (\<exists>b. opt_member (body r) ''success'' = JBool b)"
  by (auto simp: get_stats_def Let_def await_def text_result_def get_prop_def
      split: option.splits sum.splits prod.splits)

lemma clear_all_memories_shape:
  "clear_all_memories cfg args w = (Inr r, w') \<Longrightarrow>
     \<not> isError r \<and> (\<exists>b. opt_member (body r) ''success'' = JBool b)"
  by (auto simp: clear_all_memories_def destructure_def Let_def await_def text_result_def
      get_prop_def split: option.splits sum.splits prod.splits if_splits)

lemma switch_tool_shape:
  assumes "switch_tool cfg amb req w = (Inr r, w')"
  shows "\<not> isError r \<and> (\<exists>b. opt_member (body r) ''success'' = JBool b)"
  using assms store_memory_shape search_memory_shape delete_memory_shape get_memory_shape
    list_memories_shape get_stats_shape clear_all_memories_shape
  unfolding switch_tool_def
  by (simp split: if_splits)

lemma first_fault_surfaces:
  assumes "faults w = Some e # fs"
    and "calls (snd (switch_tool cfg amb req w)) \<noteq> calls w"
  shows "fst (switch_tool cfg amb req w) = Inl e"
  using assms
  by (auto simp: switch_tool_def store_memory_def search_memory_def delete_memory_def
      get_memory_def list_memories_def get_stats_def clear_all_memories_def destructure_def
      service_defs client_embeddings_create_def client_delete_points_def client_retrieve_def
      client_scroll_def client_getCollection_def client_delete_filter_def
      request_def send_def await_def Let_def
      split: if_splits option.splits)

lemma envelope_basics:
  "(\<exists>b. opt_member (body (fst (call_tool cfg amb req w))) ''success'' = JBool b) \<and>
   (switch_tool cfg amb req w = (Inl e, w') \<longrightarrow>
      call_tool cfg amb req w =
        (\<lparr>body = JObj [(''success'', JBool False), (''error'', JStr (error_message e))],
          isError = True\<rparr>, w')) \<and>
   (switch_tool cfg amb req w = (Inr r, w'') \<longrightarrow>
      call_tool cfg amb req w = (r, w'') \<and> \<not> isError r) \<and>
   (faults w = Some x # fs \<and> calls (snd (call_tool cfg amb req w)) \<noteq> calls w \<longrightarrow>
      fst (call_tool cfg amb req w) =
        \<lparr>body = JObj [(''success'', JBool False), (''error'', JStr (error_message x))],
         isError = True\<rparr>)"
proof (intro conjI impI)
  show "\<exists>b. opt_member (body (fst (call_tool cfg amb req w))) ''success'' = JBool b"
  proof (cases "switch_tool cfg amb req w")
    case (Pair res wa)
    then show ?thesis
    proof (cases res)
      case (Inl ex)
      with Pair show ?thesis
        by (auto simp: call_tool_def error_result_def get_prop_def)
    next
      case (Inr ra)
      with Pair switch_tool_shape [of cfg amb req w ra wa] show ?thesis
        by (simp add: call_tool_def)
    qed
  qed
next
  assume "switch_tool cfg amb req w = (Inl e, w')"
  then show "call_tool cfg amb req w =
        (\<lparr>body = JObj [(''success'', JBool False), (''error'', JStr (error_message e))],
          isError = True\<rparr>, w')"
    by (simp add: call_tool_def error_result_def)
next
  assume a: "switch_tool cfg amb req w = (Inr r, w'')"
  then show "call_tool cfg amb req w = (r, w'')"
    by (simp add: call_tool_def)
  from switch_tool_shape [OF a] show "\<not> isError r"
    by simp
next
  assume "faults w = Some x # fs \<and> calls (snd (call_tool cfg amb req w)) \<noteq> calls w"
  then have "fst (switch_tool cfg amb req w) = Inl x"
    using first_fault_surfaces [of w x fs cfg amb req] by (simp add: snd_call_tool)
  then show "fst (call_tool cfg amb req w) =
        \<lparr>body = JObj [(''success'', JBool False), (''error'', JStr (error_message x))],
         isError = True\<rparr>"
    by (cases "switch_tool cfg amb req w") (simp add: call_tool_def error_result_def)
qed

text \<open>
  Claim C4. The handler returns an envelope for every request and every state of the
  two services, and the body of that envelope always has a boolean \<^verbatim>\<open>success\<close>.
  When the \<^verbatim>\<open>switch\<close> raises an exception \<open>e\<close> (the unknown-tool error, a TypeError,
  or a provider or store error passed up by a service), the envelope is error-tagged
  and its body is \<^verbatim>\<open>{success: false, error: <message of e>}\<close>; when the \<^verbatim>\<open>switch\<close>
  returns normally, its result is passed on and carries no error tag. In particular,
  when the transport fails the first request an invocation sends with \<open>x\<close>, the
  caller gets the error-tagged envelope with the message of \<open>x\<close>. No handler
  swallows an exception of a leaf client: whichever service call raises \<open>e\<close>, be it
  the embedding of the content or the query, the upsert or the search that follows a
  successful embedding, the deletion or retrieval by id, the scroll, the collection
  statistics or the confirmed deletion of everything, the caller gets exactly the
  error-tagged envelope of \<open>e\<close>, together with the world that service call left.
\<close>

theorem every_call_yields_envelope:
  "(\<exists>b. opt_member (body (fst (call_tool cfg amb req w))) ''success'' = JBool b) \<and>
   (switch_tool cfg amb req w = (Inl e, w') \<longrightarrow>
      call_tool cfg amb req w =
        (\<lparr>body = JObj [(''success'', JBool False), (''error'', JStr (error_message e))],
          isError = True\<rparr>, w')) \<and>
   (switch_tool cfg amb req w = (Inr r, w'') \<longrightarrow>
      call_tool cfg amb req w = (r, w'') \<and> \<not> isError r) \<and>
   (faults w = Some x # fs \<and> calls (snd (call_tool cfg amb req w)) \<noteq> calls w \<longrightarrow>
      fst (call_tool cfg amb req w) =
        \<lparr>body = JObj [(''success'', JBool False), (''error'', JStr (error_message x))],
         isError = True\<rparr>) \<and>
   error_result e =
     \<lparr>body = JObj [(''success'', JBool False), (''error'', JStr (error_message e))],
      isError = True\<rparr> \<and>
   (generateEmbedding cfg (get_prop a ''content'') w = (Inl e, w1) \<longrightarrow>
      call_tool cfg amb \<lparr>name = ''store_memory'', arguments = Some a\<rparr> w = (error_result e, w1)) \<and>
   (generateEmbedding cfg (get_prop a ''content'') w = (Inr v, w1) \<and>
    storeMemory cfg (uuidv4 amb) v
      (JObj (spread (default_to (JObj []) (get_prop a ''metadata''))
         [(''content'', get_prop a ''content''), (''timestamp'', JStr (now_iso amb))])) w1 =
      (Inl e, w2) \<longrightarrow>
      call_tool cfg amb \<lparr>name = ''store_memory'', arguments = Some a\<rparr> w = (error_result e, w2)) \<and>
   (generateEmbedding cfg (get_prop a ''query'') w = (Inl e, w1) \<longrightarrow>
      call_tool cfg amb \<lparr>name = ''search_memory'', arguments = Some a\<rparr> w = (error_result e, w1)) \<and>
   (generateEmbedding cfg (get_prop a ''query'') w = (Inr v, w1) \<and>
    searchSimilar cfg v (default_to (JNum 5) (get_prop a ''limit''))
      (default_to (JNum (7 / 10)) (get_prop a ''threshold'')) (get_prop a ''filter'') w1 =
      (Inl e, w2) \<longrightarrow>
      call_tool cfg amb \<lparr>name = ''search_memory'', arguments = Some a\<rparr> w = (error_result e, w2)) \<and>
   (deleteMemory cfg (get_prop a ''id'') w = (Inl e, w1) \<longrightarrow>
      call_tool cfg amb \<lparr>name = ''delete_memory'', arguments = Some a\<rparr> w = (error_result e, w1)) \<and>
   (getMemory cfg (get_prop a ''id'') w = (Inl e, w1) \<longrightarrow>
      call_tool cfg amb \<lparr>name = ''get_memory'', arguments = Some a\<rparr> w = (error_result e, w1)) \<and>
   (listMemories cfg (default_to (JNum 10) (get_prop a ''limit'')) (get_prop a ''offset'') w =
      (Inl e, w1) \<longrightarrow>
      call_tool cfg amb \<lparr>name = ''list_memories'', arguments = Some a\<rparr> w = (error_result e, w1)) \<and>
   (getStats cfg w = (Inl e, w1) \<longrightarrow>
      call_tool cfg amb \<lparr>name = ''get_stats'', arguments = args\<rparr> w = (error_result e, w1)) \<and>
   (truthy (get_prop a ''confirm'') \<and> clearAllMemories cfg w = (Inl e, w1) \<longrightarrow>
      call_tool cfg amb \<lparr>name = ''clear_all_memories'', arguments = Some a\<rparr> w =
        (error_result e, w1))"
  using envelope_basics [of cfg amb req w e w' r w'' x fs]
  by (simp add: error_result_def [symmetric] store_memory_embedding_error store_memory_store_error
      search_memory_embedding_error search_memory_search_error delete_memory_error
      get_memory_error list_memories_error get_stats_error clear_all_memories_error)

theorem every_call_yields_envelope_witness:
  "switch_tool demo_cfg demo_amb
     \<lparr>name = ''search_memory'', arguments = Some [(''query'', JStr ''jwt'')]\<rparr>
     (demo_world\<lparr>faults := [Some (Error ''429 rate limit exceeded'')]\<rparr>) =
     (Inl (Error ''429 rate limit exceeded''),
      demo_world\<lparr>calls := [EmbeddingsCreate ''text-embedding-3-large'' (JStr ''jwt'') 2]\<rparr>) \<and>
   call_tool demo_cfg demo_amb
     \<lparr>name = ''search_memory'', arguments = Some [(''query'', JStr ''jwt'')]\<rparr>
     (demo_world\<lparr>faults := [Some (Error ''429 rate limit exceeded'')]\<rparr>) =
     (\<lparr>body = JObj [(''success'', JBool False), (''error'', JStr ''429 rate limit exceeded'')],
       isError = True\<rparr>,
      demo_world\<lparr>calls := [EmbeddingsCreate ''text-embedding-3-large'' (JStr ''jwt'') 2]\<rparr>) \<and>
   switch_tool demo_cfg demo_amb \<lparr>name = ''get_memory'', arguments = Some [(''id'', JStr ''x'')]\<rparr>
     demo_world =
     (Inr \<lparr>body = JObj [(''success'', JBool False), (''message'', JStr ''Memory x not found'')],
           isError = False\<rparr>,
      demo_world\<lparr>calls := [Retrieve ''semantic_memory'' [JStr ''x'']]\<rparr>) \<and>
   call_tool demo_cfg demo_amb \<lparr>name = ''get_memory'', arguments = Some [(''id'', JStr ''x'')]\<rparr>
     demo_world =
     (\<lparr>body = JObj [(''success'', JBool False), (''message'', JStr ''Memory x not found'')],
       isError = False\<rparr>,
      demo_world\<lparr>calls := [Retrieve ''semantic_memory'' [JStr ''x'']]\<rparr>) \<and>
   faults (demo_world\<lparr>faults := [Some (Thrown ''socket hang up'')]\<rparr>) =
     [Some (Thrown ''socket hang up'')] \<and>
   calls (snd (call_tool demo_cfg demo_amb \<lparr>name = ''get_stats'', arguments = None\<rparr>
     (demo_world\<lparr>faults := [Some (Thrown ''socket hang up'')]\<rparr>))) \<noteq>
     calls (demo_world\<lparr>faults := [Some (Thrown ''socket hang up'')]\<rparr>) \<and>
   fst (call_tool demo_cfg demo_amb \<lparr>name = ''get_stats'', arguments = None\<rparr>
     (demo_world\<lparr>faults := [Some (Thrown ''socket hang up'')]\<rparr>)) =
     \<lparr>body = JObj [(''success'', JBool False), (''error'', JStr ''socket hang up'')],
      isError = True\<rparr> \<and>
   generateEmbedding demo_cfg (get_prop [(''content'', JStr ''hi'')] ''content'') demo_down =
     (Inl (Error ''503 service unavailable''), demo_world\<lparr>calls := [EmbeddingsCreate ''text-embedding-3-large'' (JStr ''hi'') 2]\<rparr>) \<and>
   call_tool demo_cfg demo_amb \<lparr>name = ''store_memory'', arguments = Some [(''content'', JStr ''hi'')]\<rparr> demo_down =
     (\<lparr>body = JObj [(''success'', JBool False), (''error'', JStr ''503 service unavailable'')],
        isError = True\<rparr>,
      demo_world\<lparr>calls := [EmbeddingsCreate ''text-embedding-3-large'' (JStr ''hi'') 2]\<rparr>) \<and>
   generateEmbedding demo_cfg (get_prop [(''content'', JStr ''hi'')] ''content'') demo_store_down =
     (Inr [1, 0], demo_world\<lparr>calls := [EmbeddingsCreate ''text-embedding-3-large'' (JStr ''hi'') 2], faults := [Some (Error ''503 service unavailable'')]\<rparr>) \<and>
   storeMemory demo_cfg (uuidv4 demo_amb) [1, 0]
     (JObj (spread (default_to (JObj []) (get_prop [(''content'', JStr ''hi'')] ''metadata''))
        [(''content'', get_prop [(''content'', JStr ''hi'')] ''content''), (''timestamp'', JStr (now_iso demo_amb))]))
     (demo_world\<lparr>calls := [EmbeddingsCreate ''text-embedding-3-large'' (JStr ''hi'') 2], faults := [Some (Error ''503 service unavailable'')]\<rparr>) =
     (Inl (Error ''503 service unavailable''), demo_world\<lparr>calls := [EmbeddingsCreate ''text-embedding-3-large'' (JStr ''hi'') 2,
        Upsert ''semantic_memory'' [(JStr ''0b1f6f0e-0001'', [1, 0], JObj [(''content'', JStr ''hi''), (''timestamp'', JStr ''2024-01-01T00:00:00.000Z'')])]]\<rparr>) \<and>
   call_tool demo_cfg demo_amb \<lparr>name = ''store_memory'', arguments = Some [(''content'', JStr ''hi'')]\<rparr> demo_store_down =
     (\<lparr>body = JObj [(''success'', JBool False), (''error'', JStr ''503 service unavailable'')],
        isError = True\<rparr>,
      demo_world\<lparr>calls := [EmbeddingsCreate ''text-embedding-3-large'' (JStr ''hi'') 2,
        Upsert ''semantic_memory'' [(JStr ''0b1f6f0e-0001'', [1, 0], JObj [(''content'', JStr ''hi''), (''timestamp'', JStr ''2024-01-01T00:00:00.000Z'')])]]\<rparr>) \<and>
   generateEmbedding demo_cfg (get_prop [(''query'', JStr ''jwt'')] ''query'') demo_down =
     (Inl (Error ''503 service unavailable''), demo_world\<lparr>calls := [EmbeddingsCreate ''text-embedding-3-large'' (JStr ''jwt'') 2]\<rparr>) \<and>
   call_tool demo_cfg demo_amb \<lparr>name = ''search_memory'', arguments = Some [(''query'', JStr ''jwt'')]\<rparr> demo_down =
     (\<lparr>body = JObj [(''success'', JBool False), (''error'', JStr ''503 service unavailable'')],
        isError = True\<rparr>,
      demo_world\<lparr>calls := [EmbeddingsCreate ''text-embedding-3-large'' (JStr ''jwt'') 2]\<rparr>) \<and>
   generateEmbedding demo_cfg (get_prop [(''query'', JStr ''jwt'')] ''query'') demo_store_down =
     (Inr [1, 0], demo_world\<lparr>calls := [EmbeddingsCreate ''text-embedding-3-large'' (JStr ''jwt'') 2], faults := [Some (Error ''503 service unavailable'')]\<rparr>) \<and>
   searchSimilar demo_cfg [1, 0] (default_to (JNum 5) (get_prop [(''query'', JStr ''jwt'')] ''limit''))
     (default_to (JNum (7 / 10)) (get_prop [(''query'', JStr ''jwt'')] ''threshold'')) (get_prop [(''query'', JStr ''jwt'')] ''filter'')
     (demo_world\<lparr>calls := [EmbeddingsCreate ''text-embedding-3-large'' (JStr ''jwt'') 2], faults := [Some (Error ''503 service unavailable'')]\<rparr>) =
     (Inl (Error ''503 service unavailable''), demo_world\<lparr>calls := [EmbeddingsCreate ''text-embedding-3-large'' (JStr ''jwt'') 2,
        Search ''semantic_memory'' [1, 0] (JNum 5) (JNum (7 / 10)) JUndefined]\<rparr>) \<and>
   call_tool demo_cfg demo_amb \<lparr>name = ''search_memory'', arguments = Some [(''query'', JStr ''jwt'')]\<rparr> demo_store_down =
     (\<lparr>body = JObj [(''success'', JBool False), (''error'', JStr ''503 service unavailable'')],
        isError = True\<rparr>,
      demo_world\<lparr>calls := [EmbeddingsCreate ''text-embedding-3-large'' (JStr ''jwt'') 2,
        Search ''semantic_memory'' [1, 0] (JNum 5) (JNum (7 / 10)) JUndefined]\<rparr>) \<and>
   deleteMemory demo_cfg (get_prop [(''id'', JStr ''x'')] ''id'') demo_down =
     (Inl (Error ''503 service unavailable''), demo_world\<lparr>calls := [DeletePoints ''semantic_memory'' [JStr ''x'']]\<rparr>) \<and>
   call_tool demo_cfg demo_amb \<lparr>name = ''delete_memory'', arguments = Some [(''id'', JStr ''x'')]\<rparr> demo_down =
     (\<lparr>body = JObj [(''success'', JBool False), (''error'', JStr ''503 service unavailable'')],
        isError = True\<rparr>,
      demo_world\<lparr>calls := [DeletePoints ''semantic_memory'' [JStr ''x'']]\<rparr>) \<and>
   getMemory demo_cfg (get_prop [(''id'', JStr ''x'')] ''id'') demo_down =
     (Inl (Error ''503 service unavailable''), demo_world\<lparr>calls := [Retrieve ''semantic_memory'' [JStr ''x'']]\<rparr>) \<and>
   call_tool demo_cfg demo_amb \<lparr>name = ''get_memory'', arguments = Some [(''id'', JStr ''x'')]\<rparr> demo_down =
     (\<lparr>body = JObj [(''success'', JBool False), (''error'', JStr ''503 service unavailable'')],
        isError = True\<rparr>,
      demo_world\<lparr>calls := [Retrieve ''semantic_memory'' [JStr ''x'']]\<rparr>) \<and>
   listMemories demo_cfg (default_to (JNum 10) (get_prop [] ''limit'')) (get_prop [] ''offset'')
     demo_down =
     (Inl (Error ''503 service unavailable''), demo_world\<lparr>calls := [Scroll ''semantic_memory'' (JNum 10) JUndefined]\<rparr>) \<and>
   call_tool demo_cfg demo_amb \<lparr>name = ''list_memories'', arguments = Some []\<rparr> demo_down =
     (\<lparr>body = JObj [(''success'', JBool False), (''error'', JStr ''503 service unavailable'')],
        isError = True\<rparr>,
      demo_world\<lparr>calls := [Scroll ''semantic_memory'' (JNum 10) JUndefined]\<rparr>) \<and>
   getStats demo_cfg demo_down =
     (Inl (Error ''503 service unavailable''), demo_world\<lparr>calls := [GetCollection ''semantic_memory'']\<rparr>) \<and>
   call_tool demo_cfg demo_amb \<lparr>name = ''get_stats'', arguments = None\<rparr> demo_down =
     (\<lparr>body = JObj [(''success'', JBool False), (''error'', JStr ''503 service unavailable'')],
        isError = True\<rparr>,
      demo_world\<lparr>calls := [GetCollection ''semantic_memory'']\<rparr>) \<and>
   truthy (get_prop [(''confirm'', JBool True)] ''confirm'') \<and>
   clearAllMemories demo_cfg demo_down =
     (Inl (Error ''503 service unavailable''), demo_world\<lparr>calls := [DeleteFilter ''semantic_memory'' (JObj [])]\<rparr>) \<and>
   call_tool demo_cfg demo_amb \<lparr>name = ''clear_all_memories'', arguments = Some [(''confirm'', JBool True)]\<rparr> demo_down =
     (\<lparr>body = JObj [(''success'', JBool False), (''error'', JStr ''503 service unavailable'')],
        isError = True\<rparr>,
      demo_world\<lparr>calls := [DeleteFilter ''semantic_memory'' (JObj [])]\<rparr>)"
proof -
  have basics:
    "switch_tool demo_cfg demo_amb
     \<lparr>name = ''search_memory'', arguments = Some [(''query'', JStr ''jwt'')]\<rparr>
     (demo_world\<lparr>faults := [Some (Error ''429 rate limit exceeded'')]\<rparr>) =
     (Inl (Error ''429 rate limit exceeded''),
      demo_world\<lparr>calls := [EmbeddingsCreate ''text-embedding-3-large'' (JStr ''jwt'') 2]\<rparr>) \<and>
   call_tool demo_cfg demo_amb
     \<lparr>name = ''search_memory'', arguments = Some [(''query'', JStr ''jwt'')]\<rparr>
     (demo_world\<lparr>faults := [Some (Error ''429 rate limit exceeded'')]\<rparr>) =
     (\<lparr>body = JObj [(''success'', JBool False), (''error'', JStr ''429 rate limit exceeded'')],
       isError = True\<rparr>,
      demo_world\<lparr>calls := [EmbeddingsCreate ''text-embedding-3-large'' (JStr ''jwt'') 2]\<rparr>) \<and>
   switch_tool demo_cfg demo_amb \<lparr>name = ''get_memory'', arguments = Some [(''id'', JStr ''x'')]\<rparr>
     demo_world =
     (Inr \<lparr>body = JObj [(''success'', JBool False), (''message'', JStr ''Memory x not found'')],
           isError = False\<rparr>,
      demo_world\<lparr>calls := [Retrieve ''semantic_memory'' [JStr ''x'']]\<rparr>) \<and>
   call_tool demo_cfg demo_amb \<lparr>name = ''get_memory'', arguments = Some [(''id'', JStr ''x'')]\<rparr>
     demo_world =
     (\<lparr>body = JObj [(''success'', JBool False), (''message'', JStr ''Memory x not found'')],
       isError = False\<rparr>,
      demo_world\<lparr>calls := [Retrieve ''semantic_memory'' [JStr ''x'']]\<rparr>) \<and>
   faults (demo_world\<lparr>faults := [Some (Thrown ''socket hang up'')]\<rparr>) =
     [Some (Thrown ''socket hang up'')] \<and>
   calls (snd (call_tool demo_cfg demo_amb \<lparr>name = ''get_stats'', arguments = None\<rparr>
     (demo_world\<lparr>faults := [Some (Thrown ''socket hang up'')]\<rparr>))) \<noteq>
     calls (demo_world\<lparr>faults := [Some (Thrown ''socket hang up'')]\<rparr>) \<and>
   fst (call_tool demo_cfg demo_amb \<lparr>name = ''get_stats'', arguments = None\<rparr>
     (demo_world\<lparr>faults := [Some (Thrown ''socket hang up'')]\<rparr>)) =
     \<lparr>body = JObj [(''success'', JBool False), (''error'', JStr ''socket hang up'')],
      isError = True\<rparr>"
  proof -
    let ?q = "\<lparr>name = ''search_memory'', arguments = Some [(''query'', JStr ''jwt'')]\<rparr>"
    let ?wq = "demo_world\<lparr>faults := [Some (Error ''429 rate limit exceeded'')]\<rparr>"
    let ?wq' = "demo_world\<lparr>calls := [EmbeddingsCreate ''text-embedding-3-large'' (JStr ''jwt'') 2]\<rparr>"
    let ?g = "\<lparr>name = ''get_memory'', arguments = Some [(''id'', JStr ''x'')]\<rparr>"
    let ?wg' = "demo_world\<lparr>calls := [Retrieve ''semantic_memory'' [JStr ''x'']]\<rparr>"
    let ?s = "\<lparr>name = ''get_stats'', arguments = None\<rparr>"
    let ?ws = "demo_world\<lparr>faults := [Some (Thrown ''socket hang up'')]\<rparr>"
    have raised: "switch_tool demo_cfg demo_amb ?q ?wq = (Inl (Error ''429 rate limit exceeded''), ?wq')"
      by (simp add: handler_defs service_defs client_defs demo_defs get_prop_def)
    have returned: "switch_tool demo_cfg demo_amb ?g demo_world =
       (Inr \<lparr>body = JObj [(''success'', JBool False), (''message'', JStr ''Memory x not found'')],
             isError = False\<rparr>, ?wg')"
      by (simp add: handler_defs service_defs client_defs demo_defs get_prop_def)
    have script: "faults ?ws = [Some (Thrown ''socket hang up'')]"
      by simp
    have sent: "calls (snd (call_tool demo_cfg demo_amb ?s ?ws)) \<noteq> calls ?ws"
      by (simp add: handler_defs service_defs client_defs demo_defs)
    from every_call_yields_envelope [of demo_cfg demo_amb ?q ?wq "Error ''429 rate limit exceeded''" ?wq']
      every_call_yields_envelope [of demo_cfg demo_amb ?g demo_world _ _
        "\<lparr>body = JObj [(''success'', JBool False), (''message'', JStr ''Memory x not found'')],
          isError = False\<rparr>" ?wg']
      every_call_yields_envelope [of demo_cfg demo_amb ?s ?ws _ _ _ _ "Thrown ''socket hang up''" "[]"]
      raised returned script sent
    show ?thesis
      by simp
  qed
  have s10: "generateEmbedding demo_cfg (get_prop [(''content'', JStr ''hi'')] ''content'') demo_down =
     (Inl (Error ''503 service unavailable''), demo_world\<lparr>calls := [EmbeddingsCreate ''text-embedding-3-large'' (JStr ''hi'') 2]\<rparr>)"
    by (simp add: service_defs client_defs demo_defs demo_down_def demo_store_down_def get_prop_def default_to_def spread_def own_keys_def)
  have s20: "generateEmbedding demo_cfg (get_prop [(''content'', JStr ''hi'')] ''content'') demo_store_down =
     (Inr [1, 0], demo_world\<lparr>calls := [EmbeddingsCreate ''text-embedding-3-large'' (JStr ''hi'') 2], faults := [Some (Error ''503 service unavailable'')]\<rparr>)"
    by (simp add: service_defs client_defs demo_defs demo_down_def demo_store_down_def get_prop_def default_to_def spread_def own_keys_def)
  have s21: "storeMemory demo_cfg (uuidv4 demo_amb) [1, 0]
     (JObj (spread (default_to (JObj []) (get_prop [(''content'', JStr ''hi'')] ''metadata''))
        [(''content'', get_prop [(''content'', JStr ''hi'')] ''content''), (''timestamp'', JStr (now_iso demo_amb))]))
     (demo_world\<lparr>calls := [EmbeddingsCreate ''text-embedding-3-large'' (JStr ''hi'') 2], faults := [Some (Error ''503 service unavailable'')]\<rparr>) =
     (Inl (Error ''503 service unavailable''), demo_world\<lparr>calls := [EmbeddingsCreate ''text-embedding-3-large'' (JStr ''hi'') 2,
        Upsert ''semantic_memory'' [(JStr ''0b1f6f0e-0001'', [1, 0], JObj [(''content'', JStr ''hi''), (''timestamp'', JStr ''2024-01-01T00:00:00.000Z'')])]]\<rparr>)"
    by (simp add: service_defs client_defs demo_defs demo_down_def demo_store_down_def get_prop_def default_to_def spread_def own_keys_def)
  have q10: "generateEmbedding demo_cfg (get_prop [(''query'', JStr ''jwt'')] ''query'') demo_down =
     (Inl (Error ''503 service unavailable''), demo_world\<lparr>calls := [EmbeddingsCreate ''text-embedding-3-large'' (JStr ''jwt'') 2]\<rparr>)"
    by (simp add: service_defs client_defs demo_defs demo_down_def demo_store_down_def get_prop_def default_to_def spread_def own_keys_def)
  have q20: "generateEmbedding demo_cfg (get_prop [(''query'', JStr ''jwt'')] ''query'') demo_store_down =
     (Inr [1, 0], demo_world\<lparr>calls := [EmbeddingsCreate ''text-embedding-3-large'' (JStr ''jwt'') 2], faults := [Some (Error ''503 service unavailable'')]\<rparr>)"
    by (simp add: service_defs client_defs demo_defs demo_down_def demo_store_down_def get_prop_def default_to_def spread_def own_keys_def)
  have q21: "searchSimilar demo_cfg [1, 0] (default_to (JNum 5) (get_prop [(''query'', JStr ''jwt'')] ''limit''))
     (default_to (JNum (7 / 10)) (get_prop [(''query'', JStr ''jwt'')] ''threshold'')) (get_prop [(''query'', JStr ''jwt'')] ''filter'')
     (demo_world\<lparr>calls := [EmbeddingsCreate ''text-embedding-3-large'' (JStr ''jwt'') 2], faults := [Some (Error ''503 service unavailable'')]\<rparr>) =
     (Inl (Error ''503 service unavailable''), demo_world\<lparr>calls := [EmbeddingsCreate ''text-embedding-3-large'' (JStr ''jwt'') 2,
        Search ''semantic_memory'' [1, 0] (JNum 5) (JNum (7 / 10)) JUndefined]\<rparr>)"
    by (simp add: service_defs client_defs demo_defs demo_down_def demo_store_down_def get_prop_def default_to_def spread_def own_keys_def)
  have d0: "deleteMemory demo_cfg (get_prop [(''id'', JStr ''x'')] ''id'') demo_down =
     (Inl (Error ''503 service unavailable''), demo_world\<lparr>calls := [DeletePoints ''semantic_memory'' [JStr ''x'']]\<rparr>)"
    by (simp add: service_defs client_defs demo_defs demo_down_def demo_store_down_def get_prop_def default_to_def spread_def own_keys_def)
  have g0: "getMemory demo_cfg (get_prop [(''id'', JStr ''x'')] ''id'') demo_down =
     (Inl (Error ''503 service unavailable''), demo_world\<lparr>calls := [Retrieve ''semantic_memory'' [JStr ''x'']]\<rparr>)"
    by (simp add: service_defs client_defs demo_defs demo_down_def demo_store_down_def get_prop_def default_to_def spread_def own_keys_def)
  have l0: "listMemories demo_cfg (default_to (JNum 10) (get_prop [] ''limit'')) (get_prop [] ''offset'')
     demo_down =
     (Inl (Error ''503 service unavailable''), demo_world\<lparr>calls := [Scroll ''semantic_memory'' (JNum 10) JUndefined]\<rparr>)"
    by (simp add: service_defs client_defs demo_defs demo_down_def demo_store_down_def get_prop_def default_to_def spread_def own_keys_def)
  have t0: "getStats demo_cfg demo_down =
     (Inl (Error ''503 service unavailable''), demo_world\<lparr>calls := [GetCollection ''semantic_memory'']\<rparr>)"
    by (simp add: service_defs client_defs demo_defs demo_down_def demo_store_down_def get_prop_def default_to_def spread_def own_keys_def)
  have c0: "truthy (get_prop [(''confirm'', JBool True)] ''confirm'')"
    by (simp add: service_defs client_defs demo_defs demo_down_def demo_store_down_def get_prop_def default_to_def spread_def own_keys_def)
  have c1: "clearAllMemories demo_cfg demo_down =
     (Inl (Error ''503 service unavailable''), demo_world\<lparr>calls := [DeleteFilter ''semantic_memory'' (JObj [])]\<rparr>)"
    by (simp add: service_defs client_defs demo_defs demo_down_def demo_store_down_def get_prop_def default_to_def spread_def own_keys_def)
  have s1c: "call_tool demo_cfg demo_amb \<lparr>name = ''store_memory'', arguments = Some [(''content'', JStr ''hi'')]\<rparr> demo_down =
     (\<lparr>body = JObj [(''success'', JBool False), (''error'', JStr ''503 service unavailable'')],
        isError = True\<rparr>,
      demo_world\<lparr>calls := [EmbeddingsCreate ''text-embedding-3-large'' (JStr ''hi'') 2]\<rparr>)"
    using every_call_yields_envelope [where cfg = demo_cfg and amb = demo_amb and w = "demo_down" and e = "Error ''503 service unavailable''" and a = "[(''content'', JStr ''hi'')]" and ?w1.0 = "demo_world\<lparr>calls := [EmbeddingsCreate ''text-embedding-3-large'' (JStr ''hi'') 2]\<rparr>"]
      s10
    by (simp add: error_result_def)
  have s2c: "call_tool demo_cfg demo_amb \<lparr>name = ''store_memory'', arguments = Some [(''content'', JStr ''hi'')]\<rparr> demo_store_down =
     (\<lparr>body = JObj [(''success'', JBool False), (''error'', JStr ''503 service unavailable'')],
        isError = True\<rparr>,
      demo_world\<lparr>calls := [EmbeddingsCreate ''text-embedding-3-large'' (JStr ''hi'') 2,
        Upsert ''semantic_memory'' [(JStr ''0b1f6f0e-0001'', [1, 0], JObj [(''content'', JStr ''hi''), (''timestamp'', JStr ''2024-01-01T00:00:00.000Z'')])]]\<rparr>)"
    using every_call_yields_envelope [where cfg = demo_cfg and amb = demo_amb and w = "demo_store_down" and e = "Error ''503 service unavailable''" and a = "[(''content'', JStr ''hi'')]" and v = "[1, 0]" and ?w1.0 = "demo_world\<lparr>calls := [EmbeddingsCreate ''text-embedding-3-large'' (JStr ''hi'') 2], faults := [Some (Error ''503 service unavailable'')]\<rparr>" and ?w2.0 = "demo_world\<lparr>calls := [EmbeddingsCreate ''text-embedding-3-large'' (JStr ''hi'') 2,
        Upsert ''semantic_memory'' [(JStr ''0b1f6f0e-0001'', [1, 0], JObj [(''content'', JStr ''hi''), (''timestamp'', JStr ''2024-01-01T00:00:00.000Z'')])]]\<rparr>"]
      s20 s21
    by (simp add: error_result_def)
  have q1c: "call_tool demo_cfg demo_amb \<lparr>name = ''search_memory'', arguments = Some [(''query'', JStr ''jwt'')]\<rparr> demo_down =
     (\<lparr>body = JObj [(''success'', JBool False), (''error'', JStr ''503 service unavailable'')],
        isError = True\<rparr>,
      demo_world\<lparr>calls := [EmbeddingsCreate ''text-embedding-3-large'' (JStr ''jwt'') 2]\<rparr>)"
    using every_call_yields_envelope [where cfg = demo_cfg and amb = demo_amb and w = "demo_down" and e = "Error ''503 service unavailable''" and a = "[(''query'', JStr ''jwt'')]" and ?w1.0 = "demo_world\<lparr>calls := [EmbeddingsCreate ''text-embedding-3-large'' (JStr ''jwt'') 2]\<rparr>"]
      q10
    by (simp add: error_result_def)
  have q2c: "call_tool demo_cfg demo_amb \<lparr>name = ''search_memory'', arguments = Some [(''query'', JStr ''jwt'')]\<rparr> demo_store_down =
     (\<lparr>body = JObj [(''success'', JBool False), (''error'', JStr ''503 service unavailable'')],
        isError = True\<rparr>,
      demo_world\<lparr>calls := [EmbeddingsCreate ''text-embedding-3-large'' (JStr ''jwt'') 2,
        Search ''semantic_memory'' [1, 0] (JNum 5) (JNum (7 / 10)) JUndefined]\<rparr>)"
    using every_call_yields_envelope [where cfg = demo_cfg and amb = demo_amb and w = "demo_store_down" and e = "Error ''503 service unavailable''" and a = "[(''query'', JStr ''jwt'')]" and v = "[1, 0]" and ?w1.0 = "demo_world\<lparr>calls := [EmbeddingsCreate ''text-embedding-3-large'' (JStr ''jwt'') 2], faults := [Some (Error ''503 service unavailable'')]\<rparr>" and ?w2.0 = "demo_world\<lparr>calls := [EmbeddingsCreate ''text-embedding-3-large'' (JStr ''jwt'') 2,
        Search ''semantic_memory'' [1, 0] (JNum 5) (JNum (7 / 10)) JUndefined]\<rparr>"]
      q20 q21
    by (simp add: error_result_def)
  have dc: "call_tool demo_cfg demo_amb \<lparr>name = ''delete_memory'', arguments = Some [(''id'', JStr ''x'')]\<rparr> demo_down =
     (\<lparr>body = JObj [(''success'', JBool False), (''error'', JStr ''503 service unavailable'')],
        isError = True\<rparr>,
      demo_world\<lparr>calls := [DeletePoints ''semantic_memory'' [JStr ''x'']]\<rparr>)"
    using every_call_yields_envelope [where cfg = demo_cfg and amb = demo_amb and w = "demo_down" and e = "Error ''503 service unavailable''" and a = "[(''id'', JStr ''x'')]" and ?w1.0 = "demo_world\<lparr>calls := [DeletePoints ''semantic_memory'' [JStr ''x'']]\<rparr>"]
      d0
    by (simp add: error_result_def)
  have gc: "call_tool demo_cfg demo_amb \<lparr>name = ''get_memory'', arguments = Some [(''id'', JStr ''x'')]\<rparr> demo_down =
     (\<lparr>body = JObj [(''success'', JBool False), (''error'', JStr ''503 service unavailable'')],
        isError = True\<rparr>,
      demo_world\<lparr>calls := [Retrieve ''semantic_memory'' [JStr ''x'']]\<rparr>)"
    using every_call_yields_envelope [where cfg = demo_cfg and amb = demo_amb and w = "demo_down" and e = "Error ''503 service unavailable''" and a = "[(''id'', JStr ''x'')]" and ?w1.0 = "demo_world\<lparr>calls := [Retrieve ''semantic_memory'' [JStr ''x'']]\<rparr>"]
      g0
    by (simp add: error_result_def)
  have lc: "call_tool demo_cfg demo_amb \<lparr>name = ''list_memories'', arguments = Some []\<rparr> demo_down =
     (\<lparr>body = JObj [(''success'', JBool False), (''error'', JStr ''503 service unavailable'')],
        isError = True\<rparr>,
      demo_world\<lparr>calls := [Scroll ''semantic_memory'' (JNum 10) JUndefined]\<rparr>)"
    using every_call_yields_envelope [where cfg = demo_cfg and amb = demo_amb and w = "demo_down" and e = "Error ''503 service unavailable''" and a = "[]" and ?w1.0 = "demo_world\<lparr>calls := [Scroll ''semantic_memory'' (JNum 10) JUndefined]\<rparr>"]
      l0
    by (simp add: error_result_def)
  have tc: "call_tool demo_cfg demo_amb \<lparr>name = ''get_stats'', arguments = None\<rparr> demo_down =
     (\<lparr>body = JObj [(''success'', JBool False), (''error'', JStr ''503 service unavailable'')],
        isError = True\<rparr>,
      demo_world\<lparr>calls := [GetCollection ''semantic_memory'']\<rparr>)"
    using every_call_yields_envelope [where cfg = demo_cfg and amb = demo_amb and w = "demo_down" and e = "Error ''503 service unavailable''" and args = None and ?w1.0 = "demo_world\<lparr>calls := [GetCollection ''semantic_memory'']\<rparr>"]
      t0
    by (simp add: error_result_def)
  have cc: "call_tool demo_cfg demo_amb \<lparr>name = ''clear_all_memories'', arguments = Some [(''confirm'', JBool True)]\<rparr> demo_down =
     (\<lparr>body = JObj [(''success'', JBool False), (''error'', JStr ''503 service unavailable'')],
        isError = True\<rparr>,
      demo_world\<lparr>calls := [DeleteFilter ''semantic_memory'' (JObj [])]\<rparr>)"
    using every_call_yields_envelope [where cfg = demo_cfg and amb = demo_amb and w = "demo_down" and e = "Error ''503 service unavailable''" and a = "[(''confirm'', JBool True)]" and ?w1.0 = "demo_world\<lparr>calls := [DeleteFilter ''semantic_memory'' (JObj [])]\<rparr>"]
      c0 c1
    by (simp add: error_result_def)
  from basics s10 s1c s20 s21 s2c q10 q1c q20 q21 q2c d0 dc g0 gc l0 lc t0 tc c0 c1 cc
  show ?thesis
    by simp
qed

section \<open>Missing fields\<close>

lemma calls_store_memory:
  "\<exists>rest. calls (snd (store_memory cfg amb (Some a) w)) =
     calls w @ EmbeddingsCreate (model cfg) (get_prop a ''content'') (dimensions cfg) # rest"
  by (auto simp: store_memory_def destructure_def Let_def generateEmbedding_def storeMemory_def
      client_embeddings_create_def client_upsert_def request_def send_def await_def
      on_collection_def set_points_def
      split: list.splits option.splits json.splits)

lemma calls_search_memory:
  "\<exists>rest. calls (snd (search_memory cfg (Some a) w)) =
     calls w @ EmbeddingsCreate (model cfg) (get_prop a ''query'') (dimensions cfg) # rest"
  by (auto simp: search_memory_def destructure_def Let_def generateEmbedding_def searchSimilar_def
      client_embeddings_create_def client_search_def request_def send_def await_def
      on_collection_def
      split: list.splits option.splits)

lemma calls_delete_memory:
  "calls (snd (delete_memory cfg (Some a) w)) =
     calls w @ [DeletePoints (collectionName cfg) [get_prop a ''id'']]"
  by (auto simp: delete_memory_def destructure_def Let_def deleteMemory_def
      client_delete_points_def request_def send_def await_def on_collection_def set_points_def
      split: list.splits option.splits)

lemma calls_get_memory:
  "calls (snd (get_memory cfg (Some a) w)) =
     calls w @ [Retrieve (collectionName cfg) [get_prop a ''id'']]"
  by (auto simp: get_memory_def destructure_def Let_def getMemory_def
      client_retrieve_def request_def send_def await_def on_collection_def
      split: list.splits option.splits)

lemma no_arguments_no_request:
  "n \<noteq> ''get_stats'' \<Longrightarrow> snd (switch_tool cfg amb \<lparr>name = n, arguments = None\<rparr> w) = w"
  by (simp add: switch_tool_def store_memory_def search_memory_def delete_memory_def
      get_memory_def list_memories_def clear_all_memories_def destructure_def)

text \<open>
  The handler has no presence check of its own. A \<^verbatim>\<open>store_memory\<close> call whose
  argument object lacks the required \<^verbatim>\<open>content\<close> sends the embedding request with
  \<^verbatim>\<open>undefined\<close> as input; here the provider refuses it, and it is the provider's
  message that comes back.
\<close>

theorem missing_field_reaches_client_counterexample:
  "missing_required \<lparr>name = ''store_memory'', arguments = Some []\<rparr> \<and>
   call_tool demo_cfg demo_amb \<lparr>name = ''store_memory'', arguments = Some []\<rparr>
     (demo_world\<lparr>faults := [Some (Error ''400 input is required'')]\<rparr>) =
     (\<lparr>body = JObj [(''success'', JBool False), (''error'', JStr ''400 input is required'')],
       isError = True\<rparr>,
      demo_world\<lparr>calls := [EmbeddingsCreate ''text-embedding-3-large'' JUndefined 2]\<rparr>)"
  by (simp add: missing_required_def tools_def handler_defs service_defs client_defs demo_defs
      get_prop_def default_to_def)

lemma missing_required_cases:
  assumes "missing_required req"
  shows "name req \<in> {''store_memory'', ''search_memory'', ''delete_memory'', ''get_memory'',
           ''clear_all_memories''} \<and>
         (\<forall>a. arguments req = Some a \<and> name req = ''clear_all_memories'' \<longrightarrow>
            map_of a ''confirm'' = None)"
  using assms
  by (auto simp: missing_required_def tools_def split: option.splits)

lemma clear_all_memories_missing_confirm:
  assumes "map_of a ''confirm'' = None"
  shows "call_tool cfg amb \<lparr>name = ''clear_all_memories'', arguments = Some a\<rparr> w =
           (\<lparr>body = JObj [(''success'', JBool False),
                          (''message'',
                             JStr ''You must confirm with confirm=true to delete all memories'')],
             isError = False\<rparr>, w)"
  using assms
  by (simp add: call_tool_def switch_clear_all_memories clear_all_memories_def destructure_def
      text_result_def get_prop_def)

lemma no_arguments_rejected:
  assumes "n \<in> {''store_memory'', ''search_memory'', ''delete_memory'', ''get_memory'',
             ''clear_all_memories''}"
  shows "isError (fst (call_tool cfg amb \<lparr>name = n, arguments = None\<rparr> w)) \<and>
         opt_member (body (fst (call_tool cfg amb \<lparr>name = n, arguments = None\<rparr> w))) ''success'' =
           JBool False \<and>
         snd (call_tool cfg amb \<lparr>name = n, arguments = None\<rparr> w) = w"
  using assms
  by (auto simp: call_tool_def switch_tool_def store_memory_def search_memory_def
      delete_memory_def get_memory_def clear_all_memories_def destructure_def error_result_def
      get_prop_def)

lemma missing_required_reach:
  assumes "missing_required req"
  shows "calls (snd (call_tool cfg amb req w)) = calls w \<longleftrightarrow>
           arguments req = None \<or> name req = ''clear_all_memories''"
proof (cases req)
  case (fields n args)
  from missing_required_cases [OF assms] fields
  have n: "n \<in> {''store_memory'', ''search_memory'', ''delete_memory'', ''get_memory'',
             ''clear_all_memories''}"
    and conf: "\<forall>a. args = Some a \<and> n = ''clear_all_memories'' \<longrightarrow> map_of a ''confirm'' = None"
    by simp_all
  show ?thesis
  proof (cases args)
    case None
    with fields n no_arguments_rejected [of n cfg amb w] show ?thesis
      by simp
  next
    case (Some a)
    from n have "n = ''store_memory'' \<or> n = ''search_memory'' \<or> n = ''delete_memory'' \<or>
      n = ''get_memory'' \<or> n = ''clear_all_memories''"
      by simp
    then show ?thesis
    proof (elim disjE)
      assume 1: "n = ''store_memory''"
      from calls_store_memory [of cfg amb a w] obtain rest where
        "calls (snd (store_memory cfg amb (Some a) w)) =
           calls w @ EmbeddingsCreate (model cfg) (get_prop a ''content'') (dimensions cfg) # rest"
        by blast
      with 1 Some fields show ?thesis
        by (simp add: snd_call_tool switch_store_memory)
    next
      assume 2: "n = ''search_memory''"
      from calls_search_memory [of cfg a w] obtain rest where
        "calls (snd (search_memory cfg (Some a) w)) =
           calls w @ EmbeddingsCreate (model cfg) (get_prop a ''query'') (dimensions cfg) # rest"
        by blast
      with 2 Some fields show ?thesis
        by (simp add: snd_call_tool switch_search_memory)
    next
      assume "n = ''delete_memory''"
      with Some fields show ?thesis
        by (simp add: snd_call_tool switch_delete_memory calls_delete_memory)
    next
      assume "n = ''get_memory''"
      with Some fields show ?thesis
        by (simp add: snd_call_tool switch_get_memory calls_get_memory)
    next
      assume 5: "n = ''clear_all_memories''"
      with conf Some have "map_of a ''confirm'' = None"
        by simp
      from clear_all_memories_missing_confirm [OF this, of cfg amb w] 5 Some fields
      show ?thesis
        by simp
    qed
  qed
qed

lemma calls_call_tool_store_memory:
  "\<exists>rest. calls (snd (call_tool cfg amb \<lparr>name = ''store_memory'', arguments = Some a\<rparr> w)) =
     calls w @ EmbeddingsCreate (model cfg) (get_prop a ''content'') (dimensions cfg) # rest"
  by (simp add: snd_call_tool switch_store_memory calls_store_memory)

lemma calls_call_tool_search_memory:
  "\<exists>rest. calls (snd (call_tool cfg amb \<lparr>name = ''search_memory'', arguments = Some a\<rparr> w)) =
     calls w @ EmbeddingsCreate (model cfg) (get_prop a ''query'') (dimensions cfg) # rest"
  by (simp add: snd_call_tool switch_search_memory calls_search_memory)

lemma calls_call_tool_delete_memory:
  "calls (snd (call_tool cfg amb \<lparr>name = ''delete_memory'', arguments = Some a\<rparr> w)) =
     calls w @ [DeletePoints (collectionName cfg) [get_prop a ''id'']]"
  by (simp add: snd_call_tool switch_delete_memory calls_delete_memory)

lemma calls_call_tool_get_memory:
  "calls (snd (call_tool cfg amb \<lparr>name = ''get_memory'', arguments = Some a\<rparr> w)) =
     calls w @ [Retrieve (collectionName cfg) [get_prop a ''id'']]"
  by (simp add: snd_call_tool switch_get_memory calls_get_memory)

lemma no_arguments_call_tool:
  "n \<noteq> ''get_stats'' \<Longrightarrow> snd (call_tool cfg amb \<lparr>name = n, arguments = None\<rparr> w) = w"
  by (simp add: snd_call_tool no_arguments_no_request)

lemma missing_required_no_arguments:
  assumes "missing_required req" and "arguments req = None"
  shows "isError (fst (call_tool cfg amb req w)) \<and>
         opt_member (body (fst (call_tool cfg amb req w))) ''success'' = JBool False \<and>
         snd (call_tool cfg amb req w) = w"
proof -
  from assms(2) have "req = \<lparr>name = name req, arguments = None\<rparr>"
    by (cases req) simp
  with no_arguments_rejected [of "name req" cfg amb w] missing_required_cases [OF assms(1)]
  show ?thesis
    by simp
qed

text \<open>
  Claim C3, as amended. Presence of the required fields is not checked before the
  downstream clients are called. Whatever the argument object holds, \<^verbatim>\<open>store_memory\<close>
  and \<^verbatim>\<open>search_memory\<close> begin by sending the embedding request with the value of
  \<^verbatim>\<open>content\<close> or \<^verbatim>\<open>query\<close> as it is, and \<^verbatim>\<open>delete_memory\<close> and \<^verbatim>\<open>get_memory\<close>
  send the store request with the value of \<^verbatim>\<open>id\<close> as it is; a missing field is
  the value \<^verbatim>\<open>undefined\<close>. When the client so reached raises, its error comes back
  error-tagged. Among the invocations that miss a required field, those that send no
  request are exactly the ones without any argument object, which are answered
  error-tagged with \<^verbatim>\<open>success: false\<close>, and those of \<^verbatim>\<open>clear_all_memories\<close>, where a
  missing \<^verbatim>\<open>confirm\<close> is answered with the ordinary \<^verbatim>\<open>success: false\<close> result.
  A call without any argument object sends no request for every tool but
  \<^verbatim>\<open>get_stats\<close>, which reads no argument.
\<close>

theorem fields_forwarded_unchecked:
  "(\<exists>rest. calls (snd (call_tool cfg amb \<lparr>name = ''store_memory'', arguments = Some a\<rparr> w)) =
      calls w @ EmbeddingsCreate (model cfg) (get_prop a ''content'') (dimensions cfg) # rest) \<and>
   (\<exists>rest. calls (snd (call_tool cfg amb \<lparr>name = ''search_memory'', arguments = Some a\<rparr> w)) =
      calls w @ EmbeddingsCreate (model cfg) (get_prop a ''query'') (dimensions cfg) # rest) \<and>
   calls (snd (call_tool cfg amb \<lparr>name = ''delete_memory'', arguments = Some a\<rparr> w)) =
     calls w @ [DeletePoints (collectionName cfg) [get_prop a ''id'']] \<and>
   calls (snd (call_tool cfg amb \<lparr>name = ''get_memory'', arguments = Some a\<rparr> w)) =
     calls w @ [Retrieve (collectionName cfg) [get_prop a ''id'']] \<and>
   (n \<noteq> ''get_stats'' \<longrightarrow> snd (call_tool cfg amb \<lparr>name = n, arguments = None\<rparr> w) = w) \<and>
   (missing_required req \<longrightarrow>
      (calls (snd (call_tool cfg amb req w)) = calls w \<longleftrightarrow>
         arguments req = None \<or> name req = ''clear_all_memories'')) \<and>
   (missing_required req \<and> arguments req = None \<longrightarrow>
      isError (fst (call_tool cfg amb req w)) \<and>
      opt_member (body (fst (call_tool cfg amb req w))) ''success'' = JBool False \<and>
      snd (call_tool cfg amb req w) = w) \<and>
   (map_of a ''confirm'' = None \<longrightarrow>
      call_tool cfg amb \<lparr>name = ''clear_all_memories'', arguments = Some a\<rparr> w =
        (\<lparr>body = JObj [(''success'', JBool False),
                       (''message'',
                          JStr ''You must confirm with confirm=true to delete all memories'')],
          isError = False\<rparr>, w)) \<and>
   (generateEmbedding cfg (get_prop a ''content'') w = (Inl e, w1) \<longrightarrow>
      call_tool cfg amb \<lparr>name = ''store_memory'', arguments = Some a\<rparr> w =
        (\<lparr>body = JObj [(''success'', JBool False), (''error'', JStr (error_message e))],
          isError = True\<rparr>, w1)) \<and>
   (generateEmbedding cfg (get_prop a ''query'') w = (Inl e, w1) \<longrightarrow>
      call_tool cfg amb \<lparr>name = ''search_memory'', arguments = Some a\<rparr> w =
        (\<lparr>body = JObj [(''success'', JBool False), (''error'', JStr (error_message e))],
          isError = True\<rparr>, w1)) \<and>
   (deleteMemory cfg (get_prop a ''id'') w = (Inl e, w1) \<longrightarrow>
      call_tool cfg amb \<lparr>name = ''delete_memory'', arguments = Some a\<rparr> w =
        (\<lparr>body = JObj [(''success'', JBool False), (''error'', JStr (error_message e))],
          isError = True\<rparr>, w1)) \<and>
   (getMemory cfg (get_prop a ''id'') w = (Inl e, w1) \<longrightarrow>
      call_tool cfg amb \<lparr>name = ''get_memory'', arguments = Some a\<rparr> w =
        (\<lparr>body = JObj [(''success'', JBool False), (''error'', JStr (error_message e))],
          isError = True\<rparr>, w1))"
  by (simp add: calls_call_tool_store_memory calls_call_tool_search_memory
      calls_call_tool_delete_memory calls_call_tool_get_memory no_arguments_call_tool
      missing_required_reach missing_required_no_arguments clear_all_memories_missing_confirm
      store_memory_embedding_error search_memory_embedding_error delete_memory_error
      get_memory_error error_result_def [symmetric])

theorem fields_forwarded_unchecked_witness:
  "calls (snd (call_tool demo_cfg demo_amb \<lparr>name = ''get_memory'', arguments = Some []\<rparr> demo_world)) =
     [Retrieve ''semantic_memory'' [JUndefined]] \<and>
   calls (snd (call_tool demo_cfg demo_amb \<lparr>name = ''delete_memory'', arguments = Some []\<rparr> demo_world)) =
     [DeletePoints ''semantic_memory'' [JUndefined]] \<and>
   ''store_memory'' \<noteq> ''get_stats'' \<and>
   snd (call_tool demo_cfg demo_amb \<lparr>name = ''store_memory'', arguments = None\<rparr> demo_world) =
     demo_world \<and>
   missing_required \<lparr>name = ''store_memory'', arguments = Some []\<rparr> \<and>
   calls (snd (call_tool demo_cfg demo_amb \<lparr>name = ''store_memory'', arguments = Some []\<rparr> demo_world)) \<noteq> calls demo_world \<and>
   missing_required \<lparr>name = ''clear_all_memories'', arguments = Some []\<rparr> \<and>
   calls (snd (call_tool demo_cfg demo_amb \<lparr>name = ''clear_all_memories'', arguments = Some []\<rparr> demo_filled)) = calls demo_filled \<and>
   missing_required \<lparr>name = ''get_memory'', arguments = None\<rparr> \<and>
   arguments \<lparr>name = ''get_memory'', arguments = None\<rparr> = None \<and>
   isError (fst (call_tool demo_cfg demo_amb \<lparr>name = ''get_memory'', arguments = None\<rparr> demo_filled)) \<and>
   opt_member (body (fst (call_tool demo_cfg demo_amb \<lparr>name = ''get_memory'', arguments = None\<rparr> demo_filled))) ''success'' = JBool False \<and>
   snd (call_tool demo_cfg demo_amb \<lparr>name = ''get_memory'', arguments = None\<rparr> demo_filled) = demo_filled \<and>
   map_of ([] :: object) ''confirm'' = None \<and>
   call_tool demo_cfg demo_amb \<lparr>name = ''clear_all_memories'', arguments = Some []\<rparr> demo_filled =
     (\<lparr>body = JObj [(''success'', JBool False),
                    (''message'',
                       JStr ''You must confirm with confirm=true to delete all memories'')],
       isError = False\<rparr>, demo_filled) \<and>
   generateEmbedding demo_cfg (get_prop [] ''content'') demo_down =
     (Inl (Error ''503 service unavailable''), demo_world\<lparr>calls := [EmbeddingsCreate ''text-embedding-3-large'' JUndefined 2]\<rparr>) \<and>
   call_tool demo_cfg demo_amb \<lparr>name = ''store_memory'', arguments = Some []\<rparr> demo_down =
     (\<lparr>body = JObj [(''success'', JBool False), (''error'', JStr ''503 service unavailable'')],
       isError = True\<rparr>,
      demo_world\<lparr>calls := [EmbeddingsCreate ''text-embedding-3-large'' JUndefined 2]\<rparr>) \<and>
   generateEmbedding demo_cfg (get_prop [] ''query'') demo_down =
     (Inl (Error ''503 service unavailable''), demo_world\<lparr>calls := [EmbeddingsCreate ''text-embedding-3-large'' JUndefined 2]\<rparr>) \<and>
   call_tool demo_cfg demo_amb \<lparr>name = ''search_memory'', arguments = Some []\<rparr> demo_down =
     (\<lparr>body = JObj [(''success'', JBool False), (''error'', JStr ''503 service unavailable'')],
       isError = True\<rparr>,
      demo_world\<lparr>calls := [EmbeddingsCreate ''text-embedding-3-large'' JUndefined 2]\<rparr>) \<and>
   deleteMemory demo_cfg (get_prop [] ''id'') demo_down =
     (Inl (Error ''503 service unavailable''), demo_world\<lparr>calls := [DeletePoints ''semantic_memory'' [JUndefined]]\<rparr>) \<and>
   call_tool demo_cfg demo_amb \<lparr>name = ''delete_memory'', arguments = Some []\<rparr> demo_down =
     (\<lparr>body = JObj [(''success'', JBool False), (''error'', JStr ''503 service unavailable'')],
       isError = True\<rparr>,
      demo_world\<lparr>calls := [DeletePoints ''semantic_memory'' [JUndefined]]\<rparr>) \<and>
   getMemory demo_cfg (get_prop [] ''id'') demo_down =
     (Inl (Error ''503 service unavailable''), demo_world\<lparr>calls := [Retrieve ''semantic_memory'' [JUndefined]]\<rparr>) \<and>
   call_tool demo_cfg demo_amb \<lparr>name = ''get_memory'', arguments = Some []\<rparr> demo_down =
     (\<lparr>body = JObj [(''success'', JBool False), (''error'', JStr ''503 service unavailable'')],
       isError = True\<rparr>,
      demo_world\<lparr>calls := [Retrieve ''semantic_memory'' [JUndefined]]\<rparr>)"
proof -
  have basics:
    "calls (snd (call_tool demo_cfg demo_amb \<lparr>name = ''get_memory'', arguments = Some []\<rparr> demo_world)) =
     [Retrieve ''semantic_memory'' [JUndefined]] \<and>
   calls (snd (call_tool demo_cfg demo_amb \<lparr>name = ''delete_memory'', arguments = Some []\<rparr> demo_world)) =
     [DeletePoints ''semantic_memory'' [JUndefined]] \<and>
   ''store_memory'' \<noteq> ''get_stats'' \<and>
   snd (call_tool demo_cfg demo_amb \<lparr>name = ''store_memory'', arguments = None\<rparr> demo_world) =
     demo_world"
    using fields_forwarded_unchecked [of demo_cfg demo_amb "[]" demo_world "''store_memory''"]
    by (simp add: get_prop_def demo_defs)
  have r1h0: "missing_required \<lparr>name = ''store_memory'', arguments = Some []\<rparr>"
    by (simp add: handler_defs service_defs client_defs demo_defs demo_down_def demo_filled_def missing_required_def tools_def get_prop_def default_to_def spread_def own_keys_def)
  have r1c: "calls (snd (call_tool demo_cfg demo_amb \<lparr>name = ''store_memory'', arguments = Some []\<rparr> demo_world)) \<noteq> calls demo_world"
    using fields_forwarded_unchecked [where cfg = demo_cfg and amb = demo_amb and w = demo_world and req = "\<lparr>name = ''store_memory'', arguments = Some []\<rparr>"]
      r1h0
    by simp
  have r2h0: "missing_required \<lparr>name = ''clear_all_memories'', arguments = Some []\<rparr>"
    by (simp add: handler_defs service_defs client_defs demo_defs demo_down_def demo_filled_def missing_required_def tools_def get_prop_def default_to_def spread_def own_keys_def)
  have r2c: "calls (snd (call_tool demo_cfg demo_amb \<lparr>name = ''clear_all_memories'', arguments = Some []\<rparr> demo_filled)) = calls demo_filled"
    using fields_forwarded_unchecked [where cfg = demo_cfg and amb = demo_amb and w = demo_filled and req = "\<lparr>name = ''clear_all_memories'', arguments = Some []\<rparr>"]
      r2h0
    by simp
  have r3h0: "missing_required \<lparr>name = ''get_memory'', arguments = None\<rparr>"
    by (simp add: handler_defs service_defs client_defs demo_defs demo_down_def demo_filled_def missing_required_def tools_def get_prop_def default_to_def spread_def own_keys_def)
  have r3h1: "arguments \<lparr>name = ''get_memory'', arguments = None\<rparr> = None"
    by (simp add: handler_defs service_defs client_defs demo_defs demo_down_def demo_filled_def missing_required_def tools_def get_prop_def default_to_def spread_def own_keys_def)
  have r3c: "isError (fst (call_tool demo_cfg demo_amb \<lparr>name = ''get_memory'', arguments = None\<rparr> demo_filled)) \<and>
   opt_member (body (fst (call_tool demo_cfg demo_amb \<lparr>name = ''get_memory'', arguments = None\<rparr> demo_filled))) ''success'' = JBool False \<and>
   snd (call_tool demo_cfg demo_amb \<lparr>name = ''get_memory'', arguments = None\<rparr> demo_filled) = demo_filled"
    using fields_forwarded_unchecked [where cfg = demo_cfg and amb = demo_amb and w = demo_filled and req = "\<lparr>name = ''get_memory'', arguments = None\<rparr>"]
      r3h0 r3h1
    by simp
  have r4h0: "map_of ([] :: object) ''confirm'' = None"
    by (simp add: handler_defs service_defs client_defs demo_defs demo_down_def demo_filled_def missing_required_def tools_def get_prop_def default_to_def spread_def own_keys_def)
  have r4c: "call_tool demo_cfg demo_amb \<lparr>name = ''clear_all_memories'', arguments = Some []\<rparr> demo_filled =
     (\<lparr>body = JObj [(''success'', JBool False),
                    (''message'',
                       JStr ''You must confirm with confirm=true to delete all memories'')],
       isError = False\<rparr>, demo_filled)"
    using fields_forwarded_unchecked [where cfg = demo_cfg and amb = demo_amb and w = demo_filled and a = "[]"]
      r4h0
    by simp
  have e1h0: "generateEmbedding demo_cfg (get_prop [] ''content'') demo_down =
     (Inl (Error ''503 service unavailable''), demo_world\<lparr>calls := [EmbeddingsCreate ''text-embedding-3-large'' JUndefined 2]\<rparr>)"
    by (simp add: handler_defs service_defs client_defs demo_defs demo_down_def demo_filled_def missing_required_def tools_def get_prop_def default_to_def spread_def own_keys_def)
  have e1c: "call_tool demo_cfg demo_amb \<lparr>name = ''store_memory'', arguments = Some []\<rparr> demo_down =
     (\<lparr>body = JObj [(''success'', JBool False), (''error'', JStr ''503 service unavailable'')],
       isError = True\<rparr>,
      demo_world\<lparr>calls := [EmbeddingsCreate ''text-embedding-3-large'' JUndefined 2]\<rparr>)"
    using fields_forwarded_unchecked [where cfg = demo_cfg and amb = demo_amb and w = demo_down and a = "[]" and e = "Error ''503 service unavailable''" and ?w1.0 = "demo_world\<lparr>calls := [EmbeddingsCreate ''text-embedding-3-large'' JUndefined 2]\<rparr>"]
      e1h0
    by simp
  have e2h0: "generateEmbedding demo_cfg (get_prop [] ''query'') demo_down =
     (Inl (Error ''503 service unavailable''), demo_world\<lparr>calls := [EmbeddingsCreate ''text-embedding-3-large'' JUndefined 2]\<rparr>)"
    by (simp add: handler_defs service_defs client_defs demo_defs demo_down_def demo_filled_def missing_required_def tools_def get_prop_def default_to_def spread_def own_keys_def)
  have e2c: "call_tool demo_cfg demo_amb \<lparr>name = ''search_memory'', arguments = Some []\<rparr> demo_down =
     (\<lparr>body = JObj [(''success'', JBool False), (''error'', JStr ''503 service unavailable'')],
       isError = True\<rparr>,
      demo_world\<lparr>calls := [EmbeddingsCreate ''text-embedding-3-large'' JUndefined 2]\<rparr>)"
    using fields_forwarded_unchecked [where cfg = demo_cfg and amb = demo_amb and w = demo_down and a = "[]" and e = "Error ''503 service unavailable''" and ?w1.0 = "demo_world\<lparr>calls := [EmbeddingsCreate ''text-embedding-3-large'' JUndefined 2]\<rparr>"]
      e2h0
    by simp
  have e3h0: "deleteMemory demo_cfg (get_prop [] ''id'') demo_down =
     (Inl (Error ''503 service unavailable''), demo_world\<lparr>calls := [DeletePoints ''semantic_memory'' [JUndefined]]\<rparr>)"
    by (simp add: handler_defs service_defs client_defs demo_defs demo_down_def demo_filled_def missing_required_def tools_def get_prop_def default_to_def spread_def own_keys_def)
  have e3c: "call_tool demo_cfg demo_amb \<lparr>name = ''delete_memory'', arguments = Some []\<rparr> demo_down =
     (\<lparr>body = JObj [(''success'', JBool False), (''error'', JStr ''503 service unavailable'')],
       isError = True\<rparr>,
      demo_world\<lparr>calls := [DeletePoints ''semantic_memory'' [JUndefined]]\<rparr>)"
    using fields_forwarded_unchecked [where cfg = demo_cfg and amb = demo_amb and w = demo_down and a = "[]" and e = "Error ''503 service unavailable''" and ?w1.0 = "demo_world\<lparr>calls := [DeletePoints ''semantic_memory'' [JUndefined]]\<rparr>"]
      e3h0
    by simp
  have e4h0: "getMemory demo_cfg (get_prop [] ''id'') demo_down =
     (Inl (Error ''503 service unavailable''), demo_world\<lparr>calls := [Retrieve ''semantic_memory'' [JUndefined]]\<rparr>)"
    by (simp add: handler_defs service_defs client_defs demo_defs demo_down_def demo_filled_def missing_required_def tools_def get_prop_def default_to_def spread_def own_keys_def)
  have e4c: "call_tool demo_cfg demo_amb \<lparr>name = ''get_memory'', arguments = Some []\<rparr> demo_down =
     (\<lparr>body = JObj [(''success'', JBool False), (''error'', JStr ''503 service unavailable'')],
       isError = True\<rparr>,
      demo_world\<lparr>calls := [Retrieve ''semantic_memory'' [JUndefined]]\<rparr>)"
    using fields_forwarded_unchecked [where cfg = demo_cfg and amb = demo_amb and w = demo_down and a = "[]" and e = "Error ''503 service unavailable''" and ?w1.0 = "demo_world\<lparr>calls := [Retrieve ''semantic_memory'' [JUndefined]]\<rparr>"]
      e4h0
    by simp
  from basics r1h0 r1c r2h0 r2c r3h0 r3h1 r3c r4h0 r4c e1h0 e1c e2h0 e2c e3h0 e3c e4h0 e4c
  show ?thesis
    by simp
qed

end
